theory Spec2Isabelle
  imports Complex_Main "HOL-Library.Log_Nat"
begin

section \<open>Area weights for the tax microdata file\<close>

text \<open>
  The script reweights the national microdata sample for one sub-national area.
  Python floats and numpy float arrays are idealised as exact reals and lists of
  reals, except for the scaled target of a row of the targets file, which is
  computed in binary64 as the script does. Every exception the script can raise
  is a value of \<open>error\<close>.
\<close>

datatype error =
  AssertionError | KeyError | ValueError | ZeroDivisionError | UnboundLocalError

subsection \<open>Module constants\<close>

definition FIRST_YEAR :: int where "FIRST_YEAR = 2021"
definition LAST_YEAR :: int where "LAST_YEAR = 2034"

definition TARGET_RATIO_TOLERANCE :: real where "TARGET_RATIO_TOLERANCE = 5 / 10000"

definition DELTA_INIT_VALUE :: real where "DELTA_INIT_VALUE = 1 / 10 ^ 9"
definition DELTA_MAX_LOOPS :: nat where "DELTA_MAX_LOOPS = 5"
definition DELTA_LOOP_DECREMENT :: real where
  "DELTA_LOOP_DECREMENT = DELTA_INIT_VALUE / (real DELTA_MAX_LOOPS - 1)"

subsection \<open>numpy and jax array operations\<close>

text \<open>
  A one-dimensional array is a list. An elementwise binary operation follows the
  broadcasting rule for one-dimensional operands: equal lengths combine pointwise,
  an operand of length one is stretched, anything else raises.
\<close>

definition broadcast2 :: "(real \<Rightarrow> real \<Rightarrow> real) \<Rightarrow> real list \<Rightarrow> real list \<Rightarrow> error + real list" where
  "broadcast2 f u v =
     (if length u = length v then Inr (map2 f u v)
      else if length v = 1 then Inr (map (\<lambda>a. f a (hd v)) u)
      else if length u = 1 then Inr (map (\<lambda>b. f (hd u) b) v)
      else Inl ValueError)"

definition dot :: "real list \<Rightarrow> real list \<Rightarrow> real" where
  "dot u v = sum_list (map2 (*) u v)"

text \<open>
  \<open>A @ x\<close> for a two-dimensional \<open>A\<close> given as the list of its rows: every row
  must be as long as \<open>x\<close>.
\<close>

definition matvec :: "real list list \<Rightarrow> real list \<Rightarrow> error + real list" where
  "matvec A x =
     (if \<forall>row \<in> set A. length row = length x then Inr (map (\<lambda>row. dot row x) A)
      else Inl ValueError)"

definition square :: "real list \<Rightarrow> real list" where
  "square v = map (\<lambda>a. a\<^sup>2) v"

subsection \<open>objective\_function\<close>

definition objective_function :: "real list \<Rightarrow> real list list \<times> real list \<times> real \<Rightarrow> error + real" where
  "objective_function x args =
     (case args of (A, b, delta) \<Rightarrow>
        (case matvec A x of
           Inl e \<Rightarrow> Inl e
         | Inr Ax \<Rightarrow>
             (case broadcast2 (-) Ax b of
                Inl e \<Rightarrow> Inl e
              | Inr dev \<Rightarrow>
                  (let ssq_target_deviations = sum_list (square dev);
                       ssq_weight_deviations = sum_list (square (map (\<lambda>a. a - 1) x))
                   in Inr (ssq_target_deviations + delta * ssq_weight_deviations)))))"

text \<open>
  The objective as the specification writes it: the squared norm of \<open>A x - b\<close>
  plus \<open>delta\<close> times the squared norm of \<open>x - 1\<close>, over indices.
\<close>

definition spec_objective :: "real list \<Rightarrow> real list list \<Rightarrow> real list \<Rightarrow> real \<Rightarrow> real" where
  "spec_objective x A b delta =
     (\<Sum>i<length b. ((\<Sum>j<length x. A ! i ! j * x ! j) - b ! i)\<^sup>2)
       + delta * (\<Sum>j<length x. (x ! j - 1)\<^sup>2)"

subsection \<open>Python strings\<close>

text \<open>
  Area strings are taken to be ASCII. \<open>islower\<close>, \<open>upper\<close> and \<open>int\<close> are the
  Python string operations on such strings.
\<close>

definition ascii_lowercase :: string where "ascii_lowercase = ''abcdefghijklmnopqrstuvwxyz''"
definition ascii_uppercase :: string where "ascii_uppercase = ''ABCDEFGHIJKLMNOPQRSTUVWXYZ''"
definition ascii_digits :: string where "ascii_digits = ''0123456789''"

text \<open>
  \<open>str.islower\<close>: at least one cased character, and no cased character that is
  not lower case.
\<close>

definition islower :: "string \<Rightarrow> bool" where
  "islower s = ((\<exists>c \<in> set s. c \<in> set ascii_lowercase) \<and> (\<forall>c \<in> set s. c \<notin> set ascii_uppercase))"

definition upper_char :: "char \<Rightarrow> char" where
  "upper_char c = (case map_of (zip ascii_lowercase ascii_uppercase) c of Some u \<Rightarrow> u | None \<Rightarrow> c)"

definition upper :: "string \<Rightarrow> string" where
  "upper s = map upper_char s"

text \<open>
  \<open>int(s)\<close> in base ten on an ASCII string: surrounding white space (tab, line
  feed, vertical tab, form feed, carriage return and space) is dropped, one sign
  is allowed, and the digits may be separated by single underscores. Anything
  else raises ValueError; the separators with codes 28 to 31 are not white space
  for \<open>int\<close>.
\<close>

definition isspace :: "char \<Rightarrow> bool" where
  "isspace c = (of_char c \<in> set [9, 10, 11, 12, 13, 32 :: nat])"

definition strip :: "string \<Rightarrow> string" where
  "strip s = rev (dropWhile isspace (rev (dropWhile isspace s)))"

fun digits_ok :: "string \<Rightarrow> bool" where
  "digits_ok [] = False"
| "digits_ok [c] = (c \<in> set ascii_digits)"
| "digits_ok (c # d # cs) =
     (c \<in> set ascii_digits \<and> (if d = CHR ''_'' then digits_ok cs else digits_ok (d # cs)))"

definition digit_val :: "char \<Rightarrow> int" where
  "digit_val c = int (of_char c) - 48"

definition digits_val :: "string \<Rightarrow> int" where
  "digits_val s = foldl (\<lambda>acc c. 10 * acc + digit_val c) 0 (filter (\<lambda>c. c \<noteq> CHR ''_'') s)"

definition py_int :: "string \<Rightarrow> error + int" where
  "py_int s =
     (let t = strip s;
          (sign, ds) = (case t of
                          c # cs \<Rightarrow> if c = CHR ''-'' then (- 1, cs)
                                    else if c = CHR ''+'' then (1, cs) else (1, t)
                        | [] \<Rightarrow> (1, t))
      in if digits_ok ds then Inr (sign * digits_val ds) else Inl ValueError)"

subsection \<open>valid\_area\<close>

text \<open>
  The apportionment table: for each state code the seats after the 2020 and the
  2010 census, in the order of the source.
\<close>

definition state_info :: "(string \<times> (int \<times> int) list) list" where
  "state_info =
    [(''AL'', [(2020, 7), (2010, 7)]),
     (''AK'', [(2020, 1), (2010, 1)]),
     (''AZ'', [(2020, 9), (2010, 9)]),
     (''AR'', [(2020, 4), (2010, 4)]),
     (''CA'', [(2020, 52), (2010, 53)]),
     (''CO'', [(2020, 8), (2010, 7)]),
     (''CT'', [(2020, 5), (2010, 5)]),
     (''DE'', [(2020, 1), (2010, 1)]),
     (''FL'', [(2020, 28), (2010, 27)]),
     (''GA'', [(2020, 14), (2010, 14)]),
     (''HI'', [(2020, 2), (2010, 2)]),
     (''ID'', [(2020, 2), (2010, 2)]),
     (''IL'', [(2020, 17), (2010, 18)]),
     (''IN'', [(2020, 9), (2010, 9)]),
     (''IA'', [(2020, 4), (2010, 4)]),
     (''KS'', [(2020, 4), (2010, 4)]),
     (''KY'', [(2020, 6), (2010, 6)]),
     (''LA'', [(2020, 6), (2010, 6)]),
     (''ME'', [(2020, 2), (2010, 2)]),
     (''MD'', [(2020, 8), (2010, 8)]),
     (''MA'', [(2020, 9), (2010, 9)]),
     (''MI'', [(2020, 13), (2010, 14)]),
     (''MN'', [(2020, 8), (2010, 8)]),
     (''MS'', [(2020, 4), (2010, 4)]),
     (''MO'', [(2020, 8), (2010, 8)]),
     (''MT'', [(2020, 2), (2010, 1)]),
     (''NE'', [(2020, 3), (2010, 3)]),
     (''NV'', [(2020, 4), (2010, 4)]),
     (''NH'', [(2020, 2), (2010, 2)]),
     (''NJ'', [(2020, 12), (2010, 12)]),
     (''NM'', [(2020, 3), (2010, 3)]),
     (''NY'', [(2020, 26), (2010, 27)]),
     (''NC'', [(2020, 14), (2010, 13)]),
     (''ND'', [(2020, 1), (2010, 1)]),
     (''OH'', [(2020, 15), (2010, 16)]),
     (''OK'', [(2020, 5), (2010, 5)]),
     (''OR'', [(2020, 6), (2010, 5)]),
     (''PA'', [(2020, 17), (2010, 18)]),
     (''RI'', [(2020, 2), (2010, 2)]),
     (''SC'', [(2020, 7), (2010, 7)]),
     (''SD'', [(2020, 1), (2010, 1)]),
     (''TN'', [(2020, 9), (2010, 9)]),
     (''TX'', [(2020, 38), (2010, 36)]),
     (''UT'', [(2020, 4), (2010, 4)]),
     (''VT'', [(2020, 1), (2010, 1)]),
     (''VA'', [(2020, 11), (2010, 11)]),
     (''WA'', [(2020, 10), (2010, 10)]),
     (''WV'', [(2020, 2), (2010, 3)]),
     (''WI'', [(2020, 8), (2010, 8)]),
     (''WY'', [(2020, 1), (2010, 1)]),
     (''XX'', [(2020, 1), (2010, 1)]),
     (''YY'', [(2020, 1), (2010, 1)]),
     (''ZZ'', [(2020, 1), (2010, 1)])]"

text \<open>Reading a dictionary entry raises KeyError when the key is missing.\<close>

definition getitem :: "('k \<times> 'v) list \<Rightarrow> 'k \<Rightarrow> error + 'v" where
  "getitem d k = (case map_of d k of None \<Rightarrow> Inl KeyError | Some v \<Rightarrow> Inr v)"

text \<open>The seats of all states for one census year, as the checking loop adds them up.\<close>

definition total_seats :: "int \<Rightarrow> int" where
  "total_seats year =
     foldl (\<lambda>total (scode, seats). total + (case map_of seats year of Some n \<Rightarrow> n | None \<Rightarrow> 0))
       0 state_info"

text \<open>
  \<open>valid_area\<close>. The messages written to the error stream are left out; every
  other step is in the order of the source: the two assertions on the table, the
  length check, the lower-case check, the look-up of the state, and for a string
  of length four the district number.
\<close>

definition valid_area :: "string \<Rightarrow> error + bool" where
  "valid_area area =
     (if length state_info \<noteq> 50 + 3 then Inl AssertionError
      else if total_seats 2010 \<noteq> 435 + 3 then Inl AssertionError
      else if total_seats 2020 \<noteq> 435 + 3 then Inl AssertionError
      else
        (let ok_length = (length area = 2 \<or> length area = 4);
             all_ok1 = (if \<not> ok_length then False else True);
             s_c = take 2 area;
             all_ok2 = (if \<not> islower s_c then False else all_ok1);
             scode = upper s_c;
             all_ok3 = (if map_of state_info scode = None then False else all_ok2)
         in if length area = 4 then
              (case getitem state_info scode of
                 Inl e \<Rightarrow> Inl e
               | Inr seats \<Rightarrow>
                   (case getitem seats 2010 of
                      Inl e \<Rightarrow> Inl e
                    | Inr max_cdn \<Rightarrow>
                        if max_cdn \<le> 1 then Inr False
                        else
                          (case py_int (take 2 (drop 2 area)) of
                             Inl e \<Rightarrow> Inl e
                           | Inr cdn \<Rightarrow>
                               (let all_ok4 = (if cdn \<le> 0 then False else all_ok3);
                                    all_ok5 = (if cdn > max_cdn then False else all_ok4)
                                in Inr all_ok5))))
            else Inr all_ok3))"

subsection \<open>Binary64 arithmetic\<close>

text \<open>
  Rounding of a real number to the nearest binary64 number, ties to even. The
  significand has 53 bits: a number \<open>x\<close> with \<open>2 powi e \<le> \<bar>x\<bar> < 2 powi (e + 1)\<close>
  is rounded to a multiple of \<open>2 powi (e - 52)\<close>. The exponent is not bounded, so
  this is the machine's rounding for numbers in the normal range of binary64;
  overflow and subnormal numbers are not modelled.
\<close>

definition round_half_even :: "real \<Rightarrow> int" where
  "round_half_even r =
     (let f = \<lfloor>r\<rfloor>; d = r - of_int f
      in if d < 1 / 2 then f else if d > 1 / 2 then f + 1 else if even f then f else f + 1)"

text \<open>The exponent \<open>e\<close> of a positive number: \<open>2 powi e \<le> x < 2 powi (e + 1)\<close>.\<close>

definition exponent :: "real \<Rightarrow> int" where
  "exponent x =
     (if 1 \<le> x then int (floorlog 2 (nat \<lfloor>x\<rfloor>)) - 1
      else - int (floorlog 2 (nat (\<lceil>1 / x\<rceil> - 1))))"

definition binary64 :: "real \<Rightarrow> real" where
  "binary64 x =
     (if x = 0 then 0
      else
        (let a = \<bar>x\<bar>;
             e = exponent a;
             m = round_half_even (a * 2 powi (52 - e))
         in sgn x * of_int m * 2 powi (e - 52)))"

text \<open>The quotient and the product of two floats, for a divisor that is not zero.\<close>

definition float_div :: "real \<Rightarrow> real \<Rightarrow> real" where
  "float_div a b = binary64 (a / b)"

definition float_mul :: "real \<Rightarrow> real \<Rightarrow> real" where
  "float_mul a b = binary64 (a * b)"


subsection \<open>The microdata table and the targets file\<close>

text \<open>
  One record of the microdata table \<open>vardf\<close>: the columns the script reads by
  attribute, and every other column by its name. The table keeps the names of its
  other columns, so that reading a column that is not there raises KeyError.
\<close>

record tax_unit =
  s006 :: real
  XTOT :: real
  data_source :: int
  c00100 :: real
  MARS :: int
  other :: "string \<Rightarrow> real"

record dataframe =
  columns :: "string list"
  rows :: "tax_unit list"

text \<open>\<open>vardf[name]\<close>, as floats.\<close>

definition getcol :: "dataframe \<Rightarrow> string \<Rightarrow> error + real list" where
  "getcol vardf name =
     (if name = ''s006'' then Inr (map s006 (rows vardf))
      else if name = ''XTOT'' then Inr (map XTOT (rows vardf))
      else if name = ''data_source'' then Inr (map (\<lambda>r. real_of_int (data_source r)) (rows vardf))
      else if name = ''c00100'' then Inr (map c00100 (rows vardf))
      else if name = ''MARS'' then Inr (map (\<lambda>r. real_of_int (MARS r)) (rows vardf))
      else if name \<in> set (columns vardf) then Inr (map (\<lambda>r. other r name) (rows vardf))
      else Inl KeyError)"

text \<open>
  One row of the area's targets file. The codes \<open>count\<close>, \<open>scope\<close> and
  \<open>fstatus\<close> are integers.
\<close>

record target_row =
  varname :: string
  count :: int
  scope :: int
  agilo :: real
  agihi :: real
  fstatus :: int
  target :: real

subsection \<open>all\_taxcalc\_variables\<close>

text \<open>
  The table read from the input file is \<open>vdf\<close>. The adjusted gross income comes
  from the cache file when there is one (\<open>cache\<close>), and from the tax simulation
  \<open>calc_agi\<close> otherwise; both are outside this script. Assigning the column needs
  one value per record. The function returns the table and the cache file's
  content afterwards.
\<close>

definition agi_column ::
  "bool \<Rightarrow> dataframe \<Rightarrow> real list option \<Rightarrow> (dataframe \<Rightarrow> error + real list)
     \<Rightarrow> error + real list \<times> real list option" where
  "agi_column write_cache vdf cache calc_agi =
     (case cache of
        Some agi \<Rightarrow> Inr (agi, cache)
      | None \<Rightarrow>
          (case calc_agi vdf of
             Inl e \<Rightarrow> Inl e
           | Inr agi \<Rightarrow> Inr (agi, if write_cache then Some agi else None)))"

text \<open>The assignment \<open>vdf["c00100"] = agi\<close>, for one value per record.\<close>

definition set_c00100 :: "dataframe \<Rightarrow> real list \<Rightarrow> dataframe" where
  "set_c00100 vdf agi = vdf\<lparr>rows := map2 (\<lambda>r a. r\<lparr>c00100 := a\<rparr>) (rows vdf) agi\<rparr>"

definition all_taxcalc_variables ::
  "bool \<Rightarrow> dataframe \<Rightarrow> real list option \<Rightarrow> (dataframe \<Rightarrow> error + real list)
     \<Rightarrow> error + dataframe \<times> real list option" where
  "all_taxcalc_variables write_cache vdf cache calc_agi =
     (case agi_column write_cache vdf cache calc_agi of
        Inl e \<Rightarrow> Inl e
      | Inr (agi, cache') \<Rightarrow>
          if length agi \<noteq> length (rows vdf) then Inl ValueError
          else
            (let vdf' = set_c00100 vdf agi
             in if \<forall>r \<in> set (rows vdf'). s006 r > 0 then Inr (vdf', cache')
                else Inl AssertionError))"

subsection \<open>prepared\_data\<close>

text \<open>
  The check on the row in line two of the targets file (the first row after the
  header): it must be the area population target.
\<close>

definition population_row_ok :: "target_row \<Rightarrow> bool" where
  "population_row_ok row =
     (varname row = ''XTOT'' \<and> count row = 0 \<and> scope row = 0
      \<and> agilo row < - (8 * 10 ^ 99) \<and> agihi row > 8 * 10 ^ 99 \<and> fstatus row = 0)"

text \<open>
  The variable array of one target: the masked variable times the scale, with the
  three assertions on the codes where the source has them.
\<close>

definition target_column :: "dataframe \<Rightarrow> target_row \<Rightarrow> real \<Rightarrow> error + real list" where
  "target_column vardf row scale =
     (let numobs = length (rows vardf)
      in if \<not> (count row \<ge> 0 \<and> count row \<le> 1) then Inl AssertionError
         else
           (case getcol vardf (varname row) of
              Inl e \<Rightarrow> Inl e
            | Inr col \<Rightarrow>
                (let unmasked_varray =
                       (if count row = 0 then col
                        else map (\<lambda>v. if v > 0 then 1 else 0) col);
                     mask0 = replicate numobs (1::int)
                 in if \<not> (scope row \<ge> 0 \<and> scope row \<le> 2) then Inl AssertionError
                    else
                      (let mask1 =
                             (if scope row = 1
                              then map2 (\<lambda>m r. m * of_bool (data_source r = 1)) mask0 (rows vardf)
                              else if scope row = 2
                              then map2 (\<lambda>m r. m * of_bool (data_source r = 0)) mask0 (rows vardf)
                              else mask0);
                           in_bin = map (\<lambda>r. c00100 r \<ge> agilo row \<and> c00100 r < agihi row) (rows vardf);
                           mask2 = map2 (\<lambda>m b. m * of_bool b) mask1 in_bin
                       in if \<not> (fstatus row \<ge> 0 \<and> fstatus row \<le> 5) then Inl AssertionError
                          else
                            (let mask3 =
                                   (if fstatus row > 0
                                    then map2 (\<lambda>m r. m * of_bool (MARS r = fstatus row)) mask2 (rows vardf)
                                    else mask2)
                             in Inr (map (\<lambda>v. v * scale)
                                       (map2 (\<lambda>m v. real_of_int m * v) mask3 unmasked_varray)))))))"

text \<open>
  The body of the loop over the rows of the targets file, for the row in line
  \<open>row_num\<close>: the scaled target, the initial weights scale when the row is in
  line two, and the row's variable array. The division that gives the scale is
  Python's and raises for a zero divisor; the division by the national population
  is numpy's, which does not raise, and the model has its value for a non-zero
  population. The scaled target is what the division and the multiplication give
  in binary64. The scale enters the variable array as the exact reciprocal: the
  entries of the array are idealised as reals.
\<close>

definition target_row_step ::
  "dataframe \<Rightarrow> real \<Rightarrow> nat \<Rightarrow> target_row \<Rightarrow> error + real list \<times> real \<times> real option" where
  "target_row_step vardf national_population row_num row =
     (let unscaled_target = (if target row = 0 then 1 else target row)
      in if unscaled_target = 0 then Inl ZeroDivisionError
         else
           (let scale = 1 / unscaled_target;
                scaled_target = float_mul unscaled_target (float_div 1 unscaled_target)
            in if row_num = 2 \<and> \<not> population_row_ok row then Inl AssertionError
               else
                 (let initial_weights_scale =
                        (if row_num = 2 then Some (target row / national_population) else None)
                  in case target_column vardf row scale of
                       Inl e \<Rightarrow> Inl e
                     | Inr scaled_masked_varray \<Rightarrow>
                         Inr (scaled_masked_varray, scaled_target, initial_weights_scale))))"

fun target_rows ::
  "dataframe \<Rightarrow> real \<Rightarrow> target_row list \<Rightarrow> nat \<Rightarrow> real list list \<Rightarrow> real list \<Rightarrow> real option
     \<Rightarrow> error + real list list \<times> real list \<times> real option" where
  "target_rows vardf national_population [] row_num tm_tuple ta_list iws =
     Inr (tm_tuple, ta_list, iws)"
| "target_rows vardf national_population (row # tdf) row_num tm_tuple ta_list iws =
     (case target_row_step vardf national_population (row_num + 1) row of
        Inl e \<Rightarrow> Inl e
      | Inr (scaled_masked_varray, scaled_target, iws') \<Rightarrow>
          target_rows vardf national_population tdf (row_num + 1)
            (tm_tuple @ [scaled_masked_varray]) (ta_list @ [scaled_target])
            (case iws' of Some w \<Rightarrow> Some w | None \<Rightarrow> iws))"

text \<open>
  \<open>prepared_data\<close> for the table \<open>vardf\<close> and the content \<open>tdf\<close> of the area's
  targets file. The target matrix has one row per record and one column per
  target; it is kept as the list of its columns, as the source stacks them before
  transposing, so its entry \<open>(i, j)\<close> is \<open>entry target_matrix i j\<close>.
\<close>

definition entry :: "real list list \<Rightarrow> nat \<Rightarrow> nat \<Rightarrow> real" where
  "entry target_matrix i j = target_matrix ! j ! i"

definition national_population :: "dataframe \<Rightarrow> real" where
  "national_population vardf = sum_list (map2 (*) (map s006 (rows vardf)) (map XTOT (rows vardf)))"

definition prepared_data ::
  "dataframe \<Rightarrow> target_row list \<Rightarrow> error + real list list \<times> real list \<times> real" where
  "prepared_data vardf tdf =
     (let numobs = length (rows vardf)
      in case target_rows vardf (national_population vardf) tdf 1 [] [] None of
           Inl e \<Rightarrow> Inl e
         | Inr (tm_tuple, ta_list, iws) \<Rightarrow>
             if tm_tuple = [] then Inl ValueError
             else
               (case iws of
                  None \<Rightarrow> Inl UnboundLocalError
                | Some initial_weights_scale \<Rightarrow>
                    (let scale_factor = 1;
                         target_matrix = map (map (\<lambda>v. v * scale_factor)) tm_tuple;
                         target_array = map (\<lambda>v. v * scale_factor) ta_list
                     in Inr (target_matrix, target_array, initial_weights_scale))))"

text \<open>The mask and the value of a matrix entry as the specification words them.\<close>

definition spec_mask :: "target_row \<Rightarrow> tax_unit \<Rightarrow> real" where
  "spec_mask row r =
     (if (scope row = 0 \<or> (scope row = 1 \<and> data_source r = 1) \<or> (scope row = 2 \<and> data_source r = 0))
         \<and> agilo row \<le> c00100 r \<and> c00100 r < agihi row
         \<and> (fstatus row = 0 \<or> MARS r = fstatus row)
      then 1 else 0)"

definition spec_value :: "target_row \<Rightarrow> real \<Rightarrow> real" where
  "spec_value row v = (if count row = 0 then v else if v > 0 then 1 else 0)"

definition codes_ok :: "target_row \<Rightarrow> bool" where
  "codes_ok row = (count row \<in> {0, 1} \<and> scope row \<in> {0, 1, 2} \<and> fstatus row \<in> {0, 1, 2, 3, 4, 5})"

text \<open>The reciprocal of the target, with a zero target replaced by one.\<close>

definition unit_scale :: "target_row \<Rightarrow> real" where
  "unit_scale row = 1 / (if target row = 0 then 1 else target row)"

text \<open>
  The scaled target of a row in binary64: the target, with zero replaced by one,
  times its reciprocal.
\<close>

definition binary64_scaled_target :: "target_row \<Rightarrow> real" where
  "binary64_scaled_target row =
     (let t = (if target row = 0 then 1 else target row) in float_mul t (float_div 1 t))"

text \<open>Whether the table has a column of the given name.\<close>

definition has_column :: "dataframe \<Rightarrow> string \<Rightarrow> bool" where
  "has_column vardf name =
     (name \<in> set [''s006'', ''XTOT'', ''data_source'', ''c00100'', ''MARS''] \<or> name \<in> set (columns vardf))"

text \<open>
  A small table and targets file: two records, the population target in line two
  and a count target of zero on wages for one filing status in line three.
\<close>

definition example_vardf :: dataframe where
  "example_vardf =
     \<lparr>columns = [''e00200''],
      rows = [\<lparr>s006 = 1, XTOT = 2, data_source = 1, c00100 = 50000, MARS = 1,
                other = (\<lambda>name. if name = ''e00200'' then 40000 else 0)\<rparr>,
              \<lparr>s006 = 2, XTOT = 1, data_source = 0, c00100 = 10000, MARS = 2,
                other = (\<lambda>name. 0)\<rparr>]\<rparr>"

definition example_tdf :: "target_row list" where
  "example_tdf =
     [\<lparr>varname = ''XTOT'', count = 0, scope = 0, agilo = - (9 * 10 ^ 99), agihi = 9 * 10 ^ 99,
        fstatus = 0, target = 8\<rparr>,
      \<lparr>varname = ''e00200'', count = 1, scope = 1, agilo = 0, agihi = 100000,
        fstatus = 1, target = 0\<rparr>]"

subsection \<open>target\_misses\<close>

text \<open>
  \<open>np.dot(wght, target_matrix)\<close>: one weighted sum per target. Every column of the
  matrix must have one entry per weight.
\<close>

definition np_dot :: "real list \<Rightarrow> real list list \<Rightarrow> error + real list" where
  "np_dot wght target_matrix =
     (if \<forall>col \<in> set target_matrix. length col = length wght
      then Inr (map (\<lambda>col. dot wght col) target_matrix)
      else Inl ValueError)"

text \<open>
  \<open>target_misses\<close> with the tolerance as an argument. The string of the misses
  is kept as the list of its lines, each with the target's number, the ratio and
  the two bounds. The division is numpy's, which does not raise; the model has
  its value for a non-zero target.
\<close>

definition is_miss :: "real \<Rightarrow> real \<Rightarrow> real \<Rightarrow> bool" where
  "is_miss lob hib ratio = (ratio < lob \<or> ratio \<ge> hib)"

definition target_misses_tol ::
  "real \<Rightarrow> real list \<Rightarrow> real list list \<Rightarrow> real list
     \<Rightarrow> error + nat \<times> (nat \<times> real \<times> real \<times> real) list" where
  "target_misses_tol tol wght target_matrix target_array =
     (case np_dot wght target_matrix of
        Inl e \<Rightarrow> Inl e
      | Inr actual \<Rightarrow>
          (case broadcast2 (/) actual target_array of
             Inl e \<Rightarrow> Inl e
           | Inr tratio \<Rightarrow>
               (let lob = 1 - tol;
                    hib = 1 + tol;
                    num = length (filter (is_miss lob hib) tratio);
                    mstr = (if num > 0
                            then map (\<lambda>(tnum, ratio). (tnum + 1, ratio, lob, hib))
                                   (filter (\<lambda>(tnum, ratio). is_miss lob hib ratio)
                                      (enumerate 0 tratio))
                            else [])
                in Inr (num, mstr))))"

definition target_misses ::
  "real list \<Rightarrow> real list list \<Rightarrow> real list \<Rightarrow> error + nat \<times> (nat \<times> real \<times> real \<times> real) list" where
  "target_misses = target_misses_tol TARGET_RATIO_TOLERANCE"

text \<open>The achieved over expected ratio of target \<open>j\<close>, over indices.\<close>

definition spec_ratio :: "real list \<Rightarrow> real list list \<Rightarrow> real list \<Rightarrow> nat \<Rightarrow> real" where
  "spec_ratio wght target_matrix target_array j =
     (\<Sum>i<length wght. wght ! i * entry target_matrix i j) / target_array ! j"

subsection \<open>The regularization loop of create\_area\_weights\_file\<close>

text \<open>
  The bound-constrained minimizer is outside this script: it is a function of the
  initial guess and of the fixed arguments \<open>(A, b, delta)\<close> of the objective, and
  its result has the solution and the success flag.
\<close>

record opt_result =
  res_x :: "real list"
  res_success :: bool

type_synonym minimizer = "real list \<Rightarrow> real list list \<times> real list \<times> real \<Rightarrow> opt_result"

text \<open>
  What one pass of the loop does and writes to the log: the loop number, the
  delta, the initial guess given to the minimizer, its result and the misses.
\<close>

record trial =
  t_loop :: nat
  t_delta :: real
  t_x0 :: "real list"
  t_res :: opt_result
  t_misses :: nat

text \<open>
  The while loop, from the state \<open>(loop, delta)\<close>. It returns the passes made
  and the delta after the loop.
\<close>

function delta_loop ::
  "minimizer \<Rightarrow> real list list \<Rightarrow> real list \<Rightarrow> real list \<Rightarrow> real list list \<Rightarrow> real list
     \<Rightarrow> real list \<Rightarrow> nat \<Rightarrow> real \<Rightarrow> error + trial list \<times> real" where
  "delta_loop minimize A b wght_us target_matrix target_array wght0 loop delta =
     (if loop \<le> DELTA_MAX_LOOPS then
        (let res = minimize wght0 (A, b, delta)
         in case broadcast2 (*) (res_x res) wght_us of
              Inl e \<Rightarrow> Inl e
            | Inr wght_area \<Rightarrow>
                (case target_misses wght_area target_matrix target_array of
                   Inl e \<Rightarrow> Inl e
                 | Inr (misses, minfo) \<Rightarrow>
                     (let tr = \<lparr>t_loop = loop, t_delta = delta, t_x0 = wght0,
                                t_res = res, t_misses = misses\<rparr>
                      in if misses = 0 \<or> \<not> res_success res then Inr ([tr], delta)
                         else
                           (let delta1 = delta - DELTA_LOOP_DECREMENT;
                                delta2 = (if delta1 < 1 / 10 ^ 20 then 0 else delta1)
                            in case delta_loop minimize A b wght_us target_matrix target_array
                                      wght0 (loop + 1) delta2 of
                                 Inl e \<Rightarrow> Inl e
                               | Inr (later, delta_end) \<Rightarrow> Inr (tr # later, delta_end)))))
      else Inr ([], delta))"
  by pat_completeness auto
termination
  by (relation "measure (\<lambda>(minimize, A, b, wght_us, target_matrix, target_array, wght0, loop, delta).
                  DELTA_MAX_LOOPS + 1 - loop)") auto

declare delta_loop.simps [simp del]

text \<open>
  The matrix \<open>A\<close> of the objective: the target matrix scaled by the weights and
  transposed, one row per target.
\<close>

definition A_dense :: "real list list \<Rightarrow> real list \<Rightarrow> error + real list list" where
  "A_dense target_matrix wght_us =
     (if \<forall>col \<in> set target_matrix. length col = length wght_us
      then Inr (map (\<lambda>col. map2 (*) col wght_us) target_matrix)
      else Inl ValueError)"

definition regularization_loop ::
  "minimizer \<Rightarrow> real list \<Rightarrow> real list list \<Rightarrow> real list \<Rightarrow> error + trial list \<times> real" where
  "regularization_loop minimize wght_us target_matrix target_array =
     (case A_dense target_matrix wght_us of
        Inl e \<Rightarrow> Inl e
      | Inr A \<Rightarrow>
          (let b = target_array;
               num_weights = length wght_us;
               loop = 1;
               delta = DELTA_INIT_VALUE;
               wght0 = replicate num_weights 1
           in delta_loop minimize A b wght_us target_matrix target_array wght0 loop delta))"

text \<open>Whether the loop stops after a pass for a reason other than the cap.\<close>

definition stops :: "trial \<Rightarrow> bool" where
  "stops t = (t_misses t = 0 \<or> \<not> res_success (t_res t))"

subsection \<open>The yearly weights of create\_area\_weights\_file\<close>

text \<open>
  The population forecast is a dictionary from years to numbers. The dictionary of
  the weights has one entry per year (the key \<open>WT\<close> followed by the year in the
  source).
\<close>

fun growth_loop ::
  "(int \<rightharpoonup> real) \<Rightarrow> real list \<Rightarrow> int list \<Rightarrow> real \<Rightarrow> (int \<rightharpoonup> real list)
     \<Rightarrow> error + (int \<rightharpoonup> real list)" where
  "growth_loop pop weights [] cum_pop_growth wdict = Inr wdict"
| "growth_loop pop weights (year # years) cum_pop_growth wdict =
     (case pop year of
        None \<Rightarrow> Inl KeyError
      | Some p1 \<Rightarrow>
          (case pop (year - 1) of
             None \<Rightarrow> Inl KeyError
           | Some p0 \<Rightarrow>
               if p0 = 0 then Inl ZeroDivisionError
               else
                 (let annual_pop_growth = p1 / p0;
                      cum = cum_pop_growth * annual_pop_growth;
                      wght = map (\<lambda>w. w * cum) weights
                  in growth_loop pop weights years cum (wdict(year \<mapsto> wght)))))"

definition yearly_weights :: "real list \<Rightarrow> (int \<rightharpoonup> real) \<Rightarrow> error + (int \<rightharpoonup> real list)" where
  "yearly_weights wght_area pop =
     (let weights = map (\<lambda>w. w * 100) wght_area;
          wdict = [FIRST_YEAR \<mapsto> weights];
          cum_pop_growth = 1
      in growth_loop pop weights [FIRST_YEAR + 1..LAST_YEAR] cum_pop_growth wdict)"


text \<open>The same targets file with a scope code out of range in line three.\<close>

definition example_bad_tdf :: "target_row list" where
  "example_bad_tdf = example_tdf [1 := (example_tdf ! 1)\<lparr>scope := 3\<rparr>]"

text \<open>The example table with a zero weight in its first record.\<close>

definition example_zero_weight_vardf :: dataframe where
  "example_zero_weight_vardf =
     example_vardf\<lparr>rows := [(rows example_vardf ! 0)\<lparr>s006 := 0\<rparr>, rows example_vardf ! 1]\<rparr>"

text \<open>
  A population forecast for the years of the weights file: 100, then 110, then
  121 from 2023 on.
\<close>

definition example_pop :: "int \<rightharpoonup> real" where
  "example_pop year =
     (if year = 2021 then Some 100 else if year = 2022 then Some 110
      else if 2023 \<le> year \<and> year \<le> 2034 then Some 121 else None)"

text \<open>
  The delta of pass \<open>k\<close> (counted from one) as the specification gives it, and
  what a pass records: the initial guess of all ones, the minimizer's result for
  that guess and the pass's delta, and the misses of the resulting area weights.
\<close>

definition spec_delta :: "nat \<Rightarrow> real" where
  "spec_delta k = DELTA_INIT_VALUE - (real k - 1) * DELTA_INIT_VALUE / (real DELTA_MAX_LOOPS - 1)"

definition pass_of ::
  "minimizer \<Rightarrow> real list list \<Rightarrow> real list \<Rightarrow> real list \<Rightarrow> real list list \<Rightarrow> real list
     \<Rightarrow> real list \<Rightarrow> trial \<Rightarrow> bool" where
  "pass_of minimize A b wght_us target_matrix target_array wght0 t =
     (t_x0 t = wght0 \<and> t_res t = minimize wght0 (A, b, t_delta t) \<and>
      (\<exists>wght_area minfo.
         broadcast2 (*) (res_x (t_res t)) wght_us = Inr wght_area \<and>
         target_misses wght_area target_matrix target_array = Inr (t_misses t, minfo)))"

text \<open>
  A minimizer for the example: it returns the initial guess while delta is above
  one half of its first value, and the ratios that hit both example targets from
  then on.
\<close>

definition example_minimize :: minimizer where
  "example_minimize x0 args =
     (case args of (A, b, delta) \<Rightarrow>
        if delta \<le> 1 / (2 * 10 ^ 9) then \<lparr>res_x = [1 / 2, 3 / 2], res_success = True\<rparr>
        else \<lparr>res_x = x0, res_success = True\<rparr>)"

text \<open>The three passes of the loop for the example.\<close>

definition example_trials :: "trial list" where
  "example_trials =
     [\<lparr>t_loop = 1, t_delta = 1 / 10 ^ 9, t_x0 = [1, 1],
        t_res = \<lparr>res_x = [1, 1], res_success = True\<rparr>, t_misses = 1\<rparr>,
      \<lparr>t_loop = 2, t_delta = 3 / (4 * 10 ^ 9), t_x0 = [1, 1],
        t_res = \<lparr>res_x = [1, 1], res_success = True\<rparr>, t_misses = 1\<rparr>,
      \<lparr>t_loop = 3, t_delta = 1 / (2 * 10 ^ 9), t_x0 = [1, 1],
        t_res = \<lparr>res_x = [1 / 2, 3 / 2], res_success = True\<rparr>, t_misses = 0\<rparr>]"

text \<open>
  The national weights scaled for the area, and the area weights after the loop:
  the ratios of the last pass times the scaled national weights.
\<close>

definition scaled_national_weights :: "dataframe \<Rightarrow> real \<Rightarrow> real list" where
  "scaled_national_weights vdf weights_scale = map (\<lambda>w. w * weights_scale) (map s006 (rows vdf))"

definition calibrated_weights :: "trial list \<Rightarrow> real list \<Rightarrow> real list" where
  "calibrated_weights trials wght_us = map2 (*) (res_x (t_res (last trials))) wght_us"

subsection \<open>create\_area\_weights\_file\<close>

text \<open>
  The whole run for one area. The log lines other than those of the loop, and the
  diagnostics that only write to the log, are left out. The result is what the
  run produces: the passes of the loop, and the columns of the weights file when
  \<open>write_file\<close> is set (the file has them rounded to integers).
\<close>

definition create_area_weights_file ::
  "minimizer \<Rightarrow> bool \<Rightarrow> bool \<Rightarrow> dataframe \<Rightarrow> real list option
     \<Rightarrow> (dataframe \<Rightarrow> error + real list) \<Rightarrow> target_row list \<Rightarrow> (int \<rightharpoonup> real)
     \<Rightarrow> error + trial list \<times> (int \<rightharpoonup> real list) option" where
  "create_area_weights_file minimize write_file write_cache infile cache calc_agi tdf pop =
     (case all_taxcalc_variables write_cache infile cache calc_agi of
        Inl e \<Rightarrow> Inl e
      | Inr (vdf, cache') \<Rightarrow>
          (case prepared_data vdf tdf of
             Inl e \<Rightarrow> Inl e
           | Inr (target_matrix, target_array, weights_scale) \<Rightarrow>
               (let wght_us = map (\<lambda>w. w * weights_scale) (map s006 (rows vdf))
                in case regularization_loop minimize wght_us target_matrix target_array of
                     Inl e \<Rightarrow> Inl e
                   | Inr (trials, delta) \<Rightarrow>
                       if trials = [] then Inl UnboundLocalError
                       else
                         (let res = t_res (last trials)
                          in case broadcast2 (*) (res_x res) wght_us of
                               Inl e \<Rightarrow> Inl e
                             | Inr wght_area \<Rightarrow>
                                 if \<not> write_file then Inr (trials, None)
                                 else
                                   (case yearly_weights wght_area pop of
                                      Inl e \<Rightarrow> Inl e
                                    | Inr wdict \<Rightarrow> Inr (trials, Some wdict))))))"

section \<open>Properties\<close>

subsection \<open>Binary64 arithmetic\<close>








lemma float_examples:
  "float_mul 8 (float_div 1 8) = 1" "float_mul 1 (float_div 1 1) = 1"
  "float_mul 49 (float_div 1 49) = 1 - 1 / 2 ^ 53"
  by code_simp+


subsection \<open>objective\_function\<close>

lemma sum_list_nth_lessThan: "sum_list (map f xs) = (\<Sum>i<length xs. f (xs ! i))"
proof -
  have "sum_list (map f xs) = (\<Sum>i = 0..<length (map f xs). map f xs ! i)"
    by (rule sum_list_sum_nth)
  also have "\<dots> = (\<Sum>i<length xs. f (xs ! i))"
    by (simp add: lessThan_atLeast0)
  finally show ?thesis .
qed

lemma dot_sum: "length u = length v \<Longrightarrow> dot u v = (\<Sum>j<length v. u ! j * v ! j)"
proof -
  assume len: "length u = length v"
  have "dot u v = (\<Sum>i<length (zip u v). (case zip u v ! i of (a, b) \<Rightarrow> a * b))"
    unfolding dot_def by (rule sum_list_nth_lessThan)
  also have "\<dots> = (\<Sum>j<length v. u ! j * v ! j)"
    using len by (intro sum.cong) auto
  finally show ?thesis .
qed

text \<open>
  C1. For conformable shapes (one row of \<open>A\<close> per target, every row as long as
  \<open>x\<close>), \<open>objective_function\<close> returns the sum of the squared components of
  \<open>A x - b\<close> plus \<open>delta\<close> times the sum of the squared components of \<open>x - 1\<close>,
  for every \<open>delta\<close>.
\<close>

theorem objective_function_spec:
  assumes "length A = length b" and "\<forall>row \<in> set A. length row = length x"
  shows "objective_function x (A, b, delta) = Inr (spec_objective x A b delta)"
proof -
  have mv: "matvec A x = Inr (map (\<lambda>row. dot row x) A)"
    using assms(2) by (simp add: matvec_def)
  have bc: "broadcast2 (-) (map (\<lambda>row. dot row x) A) b
              = Inr (map2 (-) (map (\<lambda>row. dot row x) A) b)"
    using assms(1) by (simp add: broadcast2_def)
  have t: "sum_list (square (map2 (-) (map (\<lambda>row. dot row x) A) b))
             = (\<Sum>i<length b. ((\<Sum>j<length x. A ! i ! j * x ! j) - b ! i)\<^sup>2)"
  proof -
    have "sum_list (square (map2 (-) (map (\<lambda>row. dot row x) A) b))
            = (\<Sum>i<length b. (dot (A ! i) x - b ! i)\<^sup>2)"
      unfolding square_def using assms(1)
      by (simp add: sum_list_nth_lessThan)
    also have "\<dots> = (\<Sum>i<length b. ((\<Sum>j<length x. A ! i ! j * x ! j) - b ! i)\<^sup>2)"
    proof (intro sum.cong refl)
      fix i assume "i \<in> {..<length b}"
      then have "length (A ! i) = length x"
        using assms by simp
      then show "(dot (A ! i) x - b ! i)\<^sup>2 = ((\<Sum>j<length x. A ! i ! j * x ! j) - b ! i)\<^sup>2"
        by (simp add: dot_sum)
    qed
    finally show ?thesis .
  qed
  have w: "sum_list (square (map (\<lambda>a. a - 1) x)) = (\<Sum>j<length x. (x ! j - 1)\<^sup>2)"
    unfolding square_def by (simp add: sum_list_nth_lessThan)
  show ?thesis
    by (simp add: objective_function_def mv bc t w spec_objective_def)
qed

theorem objective_function_spec_witness:
  "length [[1, 2], [3, 4::real]] = length [1, 1::real]
   \<and> length [1, 2::real] = length [2, 0::real] \<and> length [3, 4::real] = length [2, 0::real]
   \<and> objective_function [2, 0] ([[1, 2], [3, 4]], [1, 1], 3) = Inr 32"
proof -
  have a: "length [[1, 2], [3, 4::real]] = length [1, 1::real]" by simp
  have b: "\<forall>row \<in> set [[1, 2], [3, 4::real]]. length row = length [2, 0::real]" by simp
  have "spec_objective [2, 0] [[1, 2], [3, 4]] [1, 1] 3 = 32"
    by (simp add: spec_objective_def lessThan_Suc numeral_2_eq_2)
  with objective_function_spec [OF a b, of 3] show ?thesis by simp
qed

subsection \<open>prepared\_data\<close>

lemma getcol_length: "getcol vardf name = Inr col \<Longrightarrow> length col = length (rows vardf)"
  by (auto simp: getcol_def split: if_splits)

lemma codes_ok_iff:
  "codes_ok row \<longleftrightarrow> (0 \<le> count row \<and> count row \<le> 1) \<and> (0 \<le> scope row \<and> scope row \<le> 2)
                      \<and> (0 \<le> fstatus row \<and> fstatus row \<le> 5)"
  unfolding codes_ok_def by auto

lemma target_column_ok:
  assumes "codes_ok row" and "getcol vardf (varname row) = Inr col"
  shows "\<exists>c. target_column vardf row scale = Inr c \<and> length c = length (rows vardf)
             \<and> (\<forall>i<length (rows vardf).
                   c ! i = spec_mask row (rows vardf ! i) * spec_value row (col ! i) * scale)"
proof -
  have len: "length col = length (rows vardf)" using assms(2) by (rule getcol_length)
  have c: "0 \<le> count row" "count row \<le> 1" "0 \<le> scope row" "scope row \<le> 2"
          "0 \<le> fstatus row" "fstatus row \<le> 5"
    using assms(1) by (simp_all add: codes_ok_iff)
  show ?thesis
    using c len assms(2)
    by (auto simp: target_column_def Let_def spec_mask_def spec_value_def)
qed

lemma target_column_bad:
  assumes "\<not> codes_ok row" and "getcol vardf (varname row) = Inr col"
  shows "target_column vardf row scale = Inl AssertionError"
  using assms by (auto simp: target_column_def Let_def codes_ok_iff)

lemma target_column_Inr_codes:
  "target_column vardf row scale = Inr c \<Longrightarrow> codes_ok row \<and> (\<exists>col. getcol vardf (varname row) = Inr col)"
  by (auto simp: target_column_def Let_def codes_ok_iff split: if_splits sum.splits)


lemma target_row_step_Inr:
  assumes "target_row_step vardf np n row = Inr (c, st, w)"
  shows "st = binary64_scaled_target row" and "target_column vardf row (unit_scale row) = Inr c"
    and "n = 2 \<Longrightarrow> population_row_ok row \<and> w = Some (target row / np)"
    and "n \<noteq> 2 \<Longrightarrow> w = None"
  using assms
  by (auto simp: target_row_step_def unit_scale_def binary64_scaled_target_def Let_def
      split: if_splits sum.splits)


lemma target_row_step_cases:
  assumes "getcol vardf (varname row) = Inr col"
  shows "if codes_ok row \<and> (n = 2 \<longrightarrow> population_row_ok row)
         then \<exists>r. target_row_step vardf np n row = Inr r
         else target_row_step vardf np n row = Inl AssertionError"
proof (cases "codes_ok row")
  case True
  from target_column_ok [OF True assms, of "unit_scale row"]
  obtain c where "target_column vardf row (unit_scale row) = Inr c" by blast
  then show ?thesis using True
    by (auto simp: target_row_step_def unit_scale_def Let_def)
next
  case False
  from target_column_bad [OF False assms]
  show ?thesis using False
    by (auto simp: target_row_step_def Let_def)
qed

lemma target_rows_Inr:
  assumes "target_rows vardf np tdf n tm ta iws = Inr (tm', ta', iws')" and "1 \<le> n"
  shows "\<exists>cols. tm' = tm @ cols \<and> length cols = length tdf
           \<and> (\<forall>j<length tdf. target_column vardf (tdf ! j) (unit_scale (tdf ! j)) = Inr (cols ! j))
           \<and> ta' = ta @ map binary64_scaled_target tdf
           \<and> iws' = (if n = 1 \<and> tdf \<noteq> [] then Some (target (hd tdf) / np) else iws)
           \<and> (n = 1 \<and> tdf \<noteq> [] \<longrightarrow> population_row_ok (hd tdf))"
  using assms
proof (induction tdf arbitrary: n tm ta iws)
  case Nil
  then show ?case by simp
next
  case (Cons row tdf)
  from Cons.prems(1) obtain c st w where
    step: "target_row_step vardf np (n + 1) row = Inr (c, st, w)" and
    rest: "target_rows vardf np tdf (n + 1) (tm @ [c]) (ta @ [st])
             (case w of Some v \<Rightarrow> Some v | None \<Rightarrow> iws) = Inr (tm', ta', iws')"
    by (auto split: sum.splits)
  note s = target_row_step_Inr [OF step]
  from Cons.IH [OF rest] Cons.prems(2) obtain cols where
    cols: "tm' = (tm @ [c]) @ cols" "length cols = length tdf"
      "\<forall>j<length tdf. target_column vardf (tdf ! j) (unit_scale (tdf ! j)) = Inr (cols ! j)"
      "ta' = (ta @ [st]) @ map binary64_scaled_target tdf"
      "iws' = (case w of Some v \<Rightarrow> Some v | None \<Rightarrow> iws)"
    by auto
  have all: "\<forall>j<length (row # tdf).
               target_column vardf ((row # tdf) ! j) (unit_scale ((row # tdf) ! j)) = Inr ((c # cols) ! j)"
    using cols(3) s(2) by (auto simp: nth_Cons split: nat.splits)
  have iw: "iws' = (if n = 1 then Some (target row / np) else iws)"
    using cols(5) s(3) s(4) by (cases "n = 1") auto
  have pop: "n = 1 \<longrightarrow> population_row_ok row"
    using s(3) by auto
  show ?case
    apply (rule exI [of _ "c # cols"])
    using cols(1,2,4) all iw pop s(1) by simp
qed

lemma target_rows_cases:
  assumes "\<forall>row \<in> set tdf. \<exists>col. getcol vardf (varname row) = Inr col" and "1 \<le> n"
  shows "if (\<forall>row \<in> set tdf. codes_ok row) \<and> (n = 1 \<and> tdf \<noteq> [] \<longrightarrow> population_row_ok (hd tdf))
         then \<exists>r. target_rows vardf np tdf n tm ta iws = Inr r
         else target_rows vardf np tdf n tm ta iws = Inl AssertionError"
  using assms
proof (induction tdf arbitrary: n tm ta iws)
  case Nil
  then show ?case by simp
next
  case (Cons row tdf)
  from Cons.prems(1) obtain col where col: "getcol vardf (varname row) = Inr col" by auto
  note st = target_row_step_cases [OF col, of "Suc n" np]
  show ?case
  proof (cases "codes_ok row \<and> (Suc n = 2 \<longrightarrow> population_row_ok row)")
    case False
    with st have "target_row_step vardf np (Suc n) row = Inl AssertionError" by simp
    then show ?thesis using False by auto
  next
    case True
    with st obtain c s w where step: "target_row_step vardf np (Suc n) row = Inr (c, s, w)"
      by (cases "target_row_step vardf np (Suc n) row") auto
    have ih: "if (\<forall>row \<in> set tdf. codes_ok row)
              then \<exists>r. target_rows vardf np tdf (Suc n) (tm @ [c]) (ta @ [s])
                          (case w of Some v \<Rightarrow> Some v | None \<Rightarrow> iws) = Inr r
              else target_rows vardf np tdf (Suc n) (tm @ [c]) (ta @ [s])
                          (case w of Some v \<Rightarrow> Some v | None \<Rightarrow> iws) = Inl AssertionError"
      using Cons.IH [of "Suc n" "tm @ [c]" "ta @ [s]" "case w of Some v \<Rightarrow> Some v | None \<Rightarrow> iws"]
        Cons.prems
      by simp
    show ?thesis using True step ih by (auto split: if_splits)
  qed
qed

lemma has_column_getcol: "has_column vardf name \<longleftrightarrow> (\<exists>col. getcol vardf name = Inr col)"
  by (auto simp: has_column_def getcol_def)

lemma map_times_one: "map (\<lambda>v::real. v * 1) xs = xs" "map (map (\<lambda>v::real. v * 1)) xss = xss"
  by (simp_all add: map_idI)

lemma prepared_data_Inr:
  assumes "prepared_data vardf tdf = Inr (tm, ta, iws)"
  shows "tdf \<noteq> []" and "length tm = length tdf"
    and "\<forall>j<length tdf. target_column vardf (tdf ! j) (unit_scale (tdf ! j)) = Inr (tm ! j)"
    and "ta = map binary64_scaled_target tdf"
    and "iws = target (hd tdf) / national_population vardf"
    and "population_row_ok (hd tdf)"
proof -
  from assms obtain tm' ta' w where
    r: "target_rows vardf (national_population vardf) tdf 1 [] [] None = Inr (tm', ta', Some w)"
    and ne: "tm' \<noteq> []" and eq: "tm = tm'" "ta = ta'" "iws = w"
    by (auto simp: prepared_data_def Let_def map_times_one split: sum.splits if_splits option.splits)
  from target_rows_Inr [OF r] obtain cols where
    c: "tm' = cols" "length cols = length tdf"
       "\<forall>j<length tdf. target_column vardf (tdf ! j) (unit_scale (tdf ! j)) = Inr (cols ! j)"
       "ta' = map binary64_scaled_target tdf"
       "Some w = (if tdf \<noteq> [] then Some (target (hd tdf) / national_population vardf) else None)"
       "tdf \<noteq> [] \<longrightarrow> population_row_ok (hd tdf)"
    by auto
  show ne': "tdf \<noteq> []" using ne c(1,2) by auto
  show "length tm = length tdf" using eq c by simp
  show "\<forall>j<length tdf. target_column vardf (tdf ! j) (unit_scale (tdf ! j)) = Inr (tm ! j)"
    using eq c by simp
  show "ta = map binary64_scaled_target tdf" using eq c by simp
  show "iws = target (hd tdf) / national_population vardf" using eq c(5) ne' by simp
  show "population_row_ok (hd tdf)" using c(6) ne' by simp
qed

lemma prepared_data_cases:
  assumes "tdf \<noteq> []" and "\<forall>row \<in> set tdf. has_column vardf (varname row)"
  shows "if (\<forall>row \<in> set tdf. codes_ok row) \<and> population_row_ok (hd tdf)
         then \<exists>tm ta iws. prepared_data vardf tdf = Inr (tm, ta, iws)
         else prepared_data vardf tdf = Inl AssertionError"
proof -
  let ?run = "target_rows vardf (national_population vardf) tdf 1 [] [] None"
  have cols: "\<forall>row \<in> set tdf. \<exists>col. getcol vardf (varname row) = Inr col"
    using assms(2) by (simp add: has_column_getcol)
  note cs = target_rows_cases [OF cols, of 1 "national_population vardf" "[]" "[]" None]
  show ?thesis
  proof (cases "(\<forall>row \<in> set tdf. codes_ok row) \<and> population_row_ok (hd tdf)")
    case False
    with cs assms(1) have "?run = Inl AssertionError" by auto
    with False show ?thesis by (simp add: prepared_data_def)
  next
    case True
    with cs assms(1) obtain tm ta w where r: "?run = Inr (tm, ta, w)"
      by (cases ?run) auto
    from target_rows_Inr [OF r] assms(1) have "tm \<noteq> []" "w \<noteq> None" by auto
    with r True show ?thesis
      by (auto simp: prepared_data_def Let_def)
  qed
qed


lemma example_prepared:
  "prepared_data example_vardf example_tdf = Inr ([[1 / 4, 1 / 8], [1, 0]], [1, 1], 2)"
  by (simp add: prepared_data_def national_population_def example_vardf_def example_tdf_def
      target_row_step_def target_column_def population_row_ok_def getcol_def float_examples
      Let_def)



lemma national_population_sum:
  "national_population vardf = (\<Sum>r\<leftarrow>rows vardf. s006 r * XTOT r)"
  by (simp add: national_population_def zip_map_map zip_same_conv_map comp_def)

text \<open>
  C3. When \<open>prepared_data\<close> returns, the entry of the target matrix for record
  \<open>i\<close> and target row \<open>j\<close> is mask times value times the reciprocal of the target
  with zero replaced by one. The mask is one exactly when the scope admits the
  record's data source, the record's adjusted gross income is in the half-open
  band from \<open>agilo\<close> to \<open>agihi\<close>, and the filing status is not filtered or equal
  to the record's; the value is the variable for count 0 and the indicator of a
  positive variable for count 1, and the row's codes are in range.
\<close>

theorem prepared_data_entry:
  assumes "prepared_data vardf tdf = Inr (target_matrix, target_array, iws)"
    and "j < length tdf" and "i < length (rows vardf)"
  shows "codes_ok (tdf ! j) \<and>
         (\<exists>col. getcol vardf (varname (tdf ! j)) = Inr col \<and>
            entry target_matrix i j
              = spec_mask (tdf ! j) (rows vardf ! i) * spec_value (tdf ! j) (col ! i)
                  * unit_scale (tdf ! j))"
proof -
  from prepared_data_Inr(3) [OF assms(1)] assms(2)
  have tc: "target_column vardf (tdf ! j) (unit_scale (tdf ! j)) = Inr (target_matrix ! j)"
    by simp
  from target_column_Inr_codes [OF tc] obtain col where
    ok: "codes_ok (tdf ! j)" and col: "getcol vardf (varname (tdf ! j)) = Inr col"
    by blast
  from target_column_ok [OF ok col, of "unit_scale (tdf ! j)"] tc assms(3)
  have "target_matrix ! j ! i
          = spec_mask (tdf ! j) (rows vardf ! i) * spec_value (tdf ! j) (col ! i) * unit_scale (tdf ! j)"
    by auto
  with ok col show ?thesis by (auto simp: entry_def)
qed

theorem prepared_data_entry_witness:
  "prepared_data example_vardf example_tdf = Inr ([[1 / 4, 1 / 8], [1, 0]], [1, 1], 2)
   \<and> 1 < length example_tdf \<and> 0 < length (rows example_vardf)
   \<and> codes_ok (example_tdf ! 1)
   \<and> (\<exists>col. getcol example_vardf (varname (example_tdf ! 1)) = Inr col \<and>
         entry [[1 / 4, 1 / 8], [1, 0]] 0 1
           = spec_mask (example_tdf ! 1) (rows example_vardf ! 0)
               * spec_value (example_tdf ! 1) (col ! 0) * unit_scale (example_tdf ! 1))"
proof -
  have j: "1 < length example_tdf" by (simp add: example_tdf_def)
  have i: "0 < length (rows example_vardf)" by (simp add: example_vardf_def)
  from prepared_data_entry [OF example_prepared j i] example_prepared j i
  show ?thesis by blast
qed




text \<open>
  C6. When the national population, the sum of weight times \<open>XTOT\<close> over the
  records, is not zero, the initial weights scale times the national population
  is the target of the row in line two.
\<close>

theorem initial_weights_scale_population:
  assumes "prepared_data vardf tdf = Inr (target_matrix, target_array, initial_weights_scale)"
    and "(\<Sum>r\<leftarrow>rows vardf. s006 r * XTOT r) \<noteq> 0"
  shows "initial_weights_scale * (\<Sum>r\<leftarrow>rows vardf. s006 r * XTOT r) = target (hd tdf)"
  using prepared_data_Inr(5) [OF assms(1)] assms(2)
  by (simp add: national_population_sum)

theorem initial_weights_scale_population_witness:
  "prepared_data example_vardf example_tdf = Inr ([[1 / 4, 1 / 8], [1, 0]], [1, 1], 2)
   \<and> (\<Sum>r\<leftarrow>rows example_vardf. s006 r * XTOT r) = 4
   \<and> 2 * (\<Sum>r\<leftarrow>rows example_vardf. s006 r * XTOT r) = target (hd example_tdf)"
proof -
  have s: "(\<Sum>r\<leftarrow>rows example_vardf. s006 r * XTOT r) = 4" by (simp add: example_vardf_def)
  then have nz: "(\<Sum>r\<leftarrow>rows example_vardf. s006 r * XTOT r) \<noteq> 0" by simp
  from initial_weights_scale_population [OF example_prepared nz] example_prepared s
  show ?thesis by simp
qed

text \<open>
  C8. For a targets file with at least one row whose variable names are all
  columns of the table, \<open>prepared_data\<close> fails, with an assertion, exactly when a
  row has a code out of range or the row in line two (the first row after the
  header) is not the population target; otherwise it returns its three results.
\<close>

theorem prepared_data_aborts_iff:
  assumes "tdf \<noteq> []" and "\<forall>row \<in> set tdf. has_column vardf (varname row)"
  shows "if (\<exists>row \<in> set tdf. \<not> codes_ok row) \<or> \<not> population_row_ok (hd tdf)
         then prepared_data vardf tdf = Inl AssertionError
         else \<exists>target_matrix target_array iws.
                prepared_data vardf tdf = Inr (target_matrix, target_array, iws)"
  using prepared_data_cases [OF assms] by (auto split: if_splits)

theorem prepared_data_aborts_iff_witness:
  "example_tdf \<noteq> []
   \<and> has_column example_vardf (varname (example_tdf ! 0))
   \<and> has_column example_vardf (varname (example_tdf ! 1))
   \<and> (\<exists>target_matrix target_array iws.
         prepared_data example_vardf example_tdf = Inr (target_matrix, target_array, iws))
   \<and> example_bad_tdf \<noteq> []
   \<and> has_column example_vardf (varname (example_bad_tdf ! 0))
   \<and> has_column example_vardf (varname (example_bad_tdf ! 1))
   \<and> (\<exists>row \<in> set example_bad_tdf. \<not> codes_ok row)
   \<and> prepared_data example_vardf example_bad_tdf = Inl AssertionError"
proof -
  have a: "example_tdf \<noteq> []" and a': "example_bad_tdf \<noteq> []"
    by (simp_all add: example_tdf_def example_bad_tdf_def)
  have c: "has_column example_vardf (varname (example_tdf ! 0))"
      "has_column example_vardf (varname (example_tdf ! 1))"
      "has_column example_vardf (varname (example_bad_tdf ! 0))"
      "has_column example_vardf (varname (example_bad_tdf ! 1))"
    by (simp_all add: example_tdf_def example_bad_tdf_def example_vardf_def has_column_def)
  have b: "\<forall>row \<in> set example_tdf. has_column example_vardf (varname row)"
    and b': "\<forall>row \<in> set example_bad_tdf. has_column example_vardf (varname row)"
    by (simp_all add: example_tdf_def example_bad_tdf_def example_vardf_def has_column_def)
  have good: "\<not> ((\<exists>row \<in> set example_tdf. \<not> codes_ok row) \<or> \<not> population_row_ok (hd example_tdf))"
    by (simp add: example_tdf_def codes_ok_def population_row_ok_def)
  have bad: "\<exists>row \<in> set example_bad_tdf. \<not> codes_ok row"
    by (simp add: example_tdf_def example_bad_tdf_def codes_ok_def)
  from prepared_data_aborts_iff [OF a b] good
  have 1: "\<exists>target_matrix target_array iws.
         prepared_data example_vardf example_tdf = Inr (target_matrix, target_array, iws)"
    by presburger
  from prepared_data_aborts_iff [OF a' b'] bad
  have 2: "prepared_data example_vardf example_bad_tdf = Inl AssertionError"
    by presburger
  from a a' c bad 1 2 show ?thesis by blast
qed

subsection \<open>valid\_area\<close>

lemma state_info_checks:
  "length state_info = 50 + 3" "total_seats 2010 = 435 + 3" "total_seats 2020 = 435 + 3"
  by (simp_all add: state_info_def total_seats_def)

text \<open>
  C9. \<open>valid_area\<close> does not return a boolean for every string: for a string of
  length four whose first two characters are not a state code, reading the
  state's seats raises KeyError after the state was found unknown.
\<close>

theorem valid_area_unknown_state_raises: "valid_area ''qq01'' = Inl KeyError"
  by (simp add: valid_area_def state_info_checks islower_def upper_def upper_char_def
      ascii_lowercase_def ascii_uppercase_def getitem_def state_info_def)

text \<open>
  Further values of \<open>valid_area\<close>: a district part that is not a number raises
  ValueError, and a sign before one digit is read as a district number.
\<close>

lemma valid_area_non_digit_raises: "valid_area ''caxx'' = Inl ValueError"
  by (simp add: valid_area_def state_info_checks islower_def upper_def upper_char_def
      ascii_lowercase_def ascii_uppercase_def ascii_digits_def getitem_def state_info_def
      py_int_def strip_def isspace_def Let_def)

lemma valid_area_sign_accepted: "valid_area ''ca+5'' = Inr True"
  by (simp add: valid_area_def state_info_checks islower_def upper_def upper_char_def
      ascii_lowercase_def ascii_uppercase_def ascii_digits_def getitem_def state_info_def
      py_int_def strip_def isspace_def digits_val_def digit_val_def Let_def)

lemma valid_area_examples:
  "valid_area ''ca'' = Inr True" "valid_area ''ca53'' = Inr True" "valid_area ''ca54'' = Inr False"
  "valid_area ''mt01'' = Inr False" "valid_area ''CA'' = Inr False" "valid_area ''cal'' = Inr False"
  by (simp_all add: valid_area_def state_info_checks islower_def upper_def upper_char_def
      ascii_lowercase_def ascii_uppercase_def ascii_digits_def getitem_def state_info_def
      py_int_def strip_def isspace_def digits_val_def digit_val_def Let_def)

subsection \<open>all\_taxcalc\_variables\<close>

lemma s006_set_c00100:
  "length agi = length (rows vdf) \<Longrightarrow> map s006 (rows (set_c00100 vdf agi)) = map s006 (rows vdf)"
proof -
  have "length agi = length rs \<Longrightarrow> map s006 (map2 (\<lambda>r a. r\<lparr>c00100 := a\<rparr>) rs agi) = map s006 rs"
    for rs :: "tax_unit list"
    by (induction rs agi rule: list_induct2') auto
  then show "length agi = length (rows vdf) \<Longrightarrow> ?thesis"
    by (simp add: set_c00100_def)
qed

lemma all_taxcalc_variables_Inr:
  assumes "all_taxcalc_variables write_cache vdf cache calc_agi = Inr (vdf', cache')"
  shows "\<exists>agi. agi_column write_cache vdf cache calc_agi = Inr (agi, cache')
           \<and> length agi = length (rows vdf) \<and> vdf' = set_c00100 vdf agi
           \<and> (\<forall>r \<in> set (rows vdf'). 0 < s006 r)"
  using assms
  by (auto simp: all_taxcalc_variables_def Let_def split: sum.splits if_splits prod.splits)

text \<open>
  C10. When \<open>all_taxcalc_variables\<close> returns a table, every record of it has a
  strictly positive weight, and the weights are those of the table read. When
  some record's weight is not strictly positive it returns no table, and once
  the income column is there (one value per record) the failure is the assertion.
\<close>

theorem all_taxcalc_variables_positive_weights:
  "(\<forall>vdf' cache'. all_taxcalc_variables write_cache vdf cache calc_agi = Inr (vdf', cache') \<longrightarrow>
       (\<forall>r \<in> set (rows vdf'). 0 < s006 r) \<and> map s006 (rows vdf') = map s006 (rows vdf))
   \<and> ((\<exists>r \<in> set (rows vdf). \<not> 0 < s006 r) \<longrightarrow>
        (\<exists>e. all_taxcalc_variables write_cache vdf cache calc_agi = Inl e)
        \<and> (\<forall>agi c. agi_column write_cache vdf cache calc_agi = Inr (agi, c)
                     \<and> length agi = length (rows vdf) \<longrightarrow>
              all_taxcalc_variables write_cache vdf cache calc_agi = Inl AssertionError))"
proof -
  have ret: "(\<forall>r \<in> set (rows vdf'). 0 < s006 r) \<and> map s006 (rows vdf') = map s006 (rows vdf)"
    if "all_taxcalc_variables write_cache vdf cache calc_agi = Inr (vdf', cache')"
    for vdf' cache'
    using all_taxcalc_variables_Inr [OF that] s006_set_c00100 by blast
  have neg_after: "\<not> (\<forall>r \<in> set (rows (set_c00100 vdf agi)). 0 < s006 r)"
    if neg: "\<exists>r \<in> set (rows vdf). \<not> 0 < s006 r" and len: "length agi = length (rows vdf)"
    for agi
  proof
    assume pos: "\<forall>r \<in> set (rows (set_c00100 vdf agi)). 0 < s006 r"
    then have "\<forall>w \<in> set (map s006 (rows (set_c00100 vdf agi))). 0 < w" by simp
    then have "\<forall>w \<in> set (map s006 (rows vdf)). 0 < w"
      by (simp only: s006_set_c00100 [OF len])
    with neg show False by simp
  qed
  have bad: "all_taxcalc_variables write_cache vdf cache calc_agi = Inl AssertionError"
    if neg: "\<exists>r \<in> set (rows vdf). \<not> 0 < s006 r"
      and agi: "agi_column write_cache vdf cache calc_agi = Inr (agi, c)"
      and len: "length agi = length (rows vdf)"
    for agi c
    using neg_after [OF neg len] agi len
    by (simp add: all_taxcalc_variables_def Let_def)
  have ab: "\<exists>e. all_taxcalc_variables write_cache vdf cache calc_agi = Inl e"
    if neg: "\<exists>r \<in> set (rows vdf). \<not> 0 < s006 r"
  proof (cases "all_taxcalc_variables write_cache vdf cache calc_agi")
    case (Inl e)
    then show ?thesis by blast
  next
    case (Inr p)
    obtain vdf' cache' where p: "p = (vdf', cache')" by (cases p)
    from all_taxcalc_variables_Inr [OF Inr [unfolded p]] neg_after [OF neg]
    show ?thesis by blast
  qed
  from ret bad ab show ?thesis by blast
qed

theorem all_taxcalc_variables_positive_weights_witness:
  "all_taxcalc_variables False example_vardf (Some [3, 4]) (\<lambda>vdf. Inl ValueError)
     = Inr (set_c00100 example_vardf [3, 4], Some [3, 4])
   \<and> 0 < s006 (rows (set_c00100 example_vardf [3, 4]) ! 0)
   \<and> 0 < s006 (rows (set_c00100 example_vardf [3, 4]) ! 1)
   \<and> map s006 (rows (set_c00100 example_vardf [3, 4])) = [1, 2]
   \<and> (\<exists>r \<in> set (rows example_zero_weight_vardf). \<not> 0 < s006 r)
   \<and> agi_column False example_zero_weight_vardf (Some [3, 4]) (\<lambda>vdf. Inl ValueError)
       = Inr ([3, 4], Some [3, 4])
   \<and> all_taxcalc_variables False example_zero_weight_vardf (Some [3, 4]) (\<lambda>vdf. Inl ValueError)
       = Inl AssertionError"
proof -
  have r: "all_taxcalc_variables False example_vardf (Some [3, 4]) (\<lambda>vdf. Inl ValueError)
             = Inr (set_c00100 example_vardf [3, 4], Some [3, 4])"
    by (simp add: all_taxcalc_variables_def agi_column_def set_c00100_def example_vardf_def)
  have z: "\<exists>r \<in> set (rows example_zero_weight_vardf). \<not> 0 < s006 r"
    by (simp add: example_zero_weight_vardf_def)
  have a: "agi_column False example_zero_weight_vardf (Some [3, 4]) (\<lambda>vdf. Inl ValueError)
             = Inr ([3, 4], Some [3, 4])"
    by (simp add: agi_column_def)
  have l: "length [3, 4 :: real] = length (rows example_zero_weight_vardf)"
    by (simp add: example_zero_weight_vardf_def)
  note t1 = all_taxcalc_variables_positive_weights
              [of False example_vardf "Some [3, 4]" "\<lambda>vdf. Inl ValueError"]
  note t2 = all_taxcalc_variables_positive_weights
              [of False example_zero_weight_vardf "Some [3, 4]" "\<lambda>vdf. Inl ValueError"]
  from t1 r have p: "\<forall>r \<in> set (rows (set_c00100 example_vardf [3, 4])). 0 < s006 r"
    and m: "map s006 (rows (set_c00100 example_vardf [3, 4])) = map s006 (rows example_vardf)"
    by blast+
  have n: "length (rows (set_c00100 example_vardf [3, 4])) = 2"
    by (simp add: set_c00100_def example_vardf_def)
  from p n have p0: "0 < s006 (rows (set_c00100 example_vardf [3, 4]) ! 0)"
    and p1: "0 < s006 (rows (set_c00100 example_vardf [3, 4]) ! 1)"
    by (simp_all add: all_set_conv_all_nth)
  from m have m': "map s006 (rows (set_c00100 example_vardf [3, 4])) = [1, 2]"
    by (simp add: example_vardf_def)
  from t2 z a l
  have f: "all_taxcalc_variables False example_zero_weight_vardf (Some [3, 4]) (\<lambda>vdf. Inl ValueError)
             = Inl AssertionError"
    by blast
  from r p0 p1 m' z a f show ?thesis by blast
qed

subsection \<open>target\_misses\<close>

lemma np_dot_ok:
  assumes "\<forall>col \<in> set tm. length col = length wght"
  shows "np_dot wght tm = Inr (map (\<lambda>col. dot wght col) tm)"
  using assms by (simp add: np_dot_def)

lemma tratio_nth:
  assumes "\<forall>col \<in> set tm. length col = length wght" and "length tm = length ta" and "j < length ta"
  shows "map2 (/) (map (\<lambda>col. dot wght col) tm) ta ! j = spec_ratio wght tm ta j"
proof -
  have "length (tm ! j) = length wght" using assms by simp
  then have "dot wght (tm ! j) = (\<Sum>i<length wght. wght ! i * tm ! j ! i)"
    using dot_sum [of wght "tm ! j"] by simp
  then show ?thesis using assms(2,3) by (simp add: spec_ratio_def entry_def)
qed

lemma target_misses_tol_value:
  assumes "\<forall>col \<in> set tm. length col = length wght" and "length tm = length ta"
  shows "\<exists>mstr. target_misses_tol tol wght tm ta
           = Inr (card {j. j < length ta \<and> is_miss (1 - tol) (1 + tol) (spec_ratio wght tm ta j)}, mstr)"
proof -
  define actual where "actual = map (\<lambda>col. dot wght col) tm"
  define tr where "tr = map2 (/) actual ta"
  have dt: "np_dot wght tm = Inr actual"
    unfolding actual_def using assms(1) by (rule np_dot_ok)
  have bc: "broadcast2 (/) actual ta = Inr tr"
    using assms(2) by (simp add: broadcast2_def tr_def actual_def)
  have len: "length tr = length ta" using assms(2) by (simp add: tr_def actual_def)
  have nth: "tr ! j = spec_ratio wght tm ta j" if "j < length ta" for j
    unfolding tr_def actual_def using assms that by (rule tratio_nth)
  have "length (filter (is_miss (1 - tol) (1 + tol)) tr)
          = card {j. j < length tr \<and> is_miss (1 - tol) (1 + tol) (tr ! j)}"
    by (rule length_filter_conv_card)
  also have "{j. j < length tr \<and> is_miss (1 - tol) (1 + tol) (tr ! j)}
          = {j. j < length ta \<and> is_miss (1 - tol) (1 + tol) (spec_ratio wght tm ta j)}"
    using nth len by auto
  finally have n: "length (filter (is_miss (1 - tol) (1 + tol)) tr)
          = card {j. j < length ta \<and> is_miss (1 - tol) (1 + tol) (spec_ratio wght tm ta j)}" .
  show ?thesis
    by (simp add: target_misses_tol_def dt bc Let_def n)
qed

lemma misses_antimono:
  assumes "tol1 \<le> tol2"
  shows "card {j::nat. j < n \<and> is_miss (1 - tol2) (1 + tol2) (r j)}
           \<le> card {j. j < n \<and> is_miss (1 - tol1) (1 + tol1) (r j)}"
proof (rule card_mono)
  show "finite {j. j < n \<and> is_miss (1 - tol1) (1 + tol1) (r j)}"
    by (rule finite_subset [of _ "{..<n}"]) auto
  show "{j. j < n \<and> is_miss (1 - tol2) (1 + tol2) (r j)}
          \<subseteq> {j. j < n \<and> is_miss (1 - tol1) (1 + tol1) (r j)}"
    using assms by (auto simp: is_miss_def)
qed

text \<open>
  C5. For a weight per record, a matrix with one entry per record in every
  column, one target per column and no zero target, the number of misses that
  \<open>target_misses\<close> returns is the number of targets whose ratio of achieved to
  expected is below one minus the tolerance, or at least one plus the tolerance.
  The same holds for every tolerance, and a smaller tolerance never gives fewer
  misses.
\<close>

theorem target_misses_count:
  assumes "\<forall>col \<in> set target_matrix. length col = length wght"
    and "length target_matrix = length target_array"
    and "\<forall>t \<in> set target_array. t \<noteq> 0"
  shows "(\<exists>mstr. target_misses wght target_matrix target_array
            = Inr (card {j. j < length target_array \<and>
                          (spec_ratio wght target_matrix target_array j < 1 - TARGET_RATIO_TOLERANCE
                           \<or> spec_ratio wght target_matrix target_array j \<ge> 1 + TARGET_RATIO_TOLERANCE)},
                   mstr))
       \<and> (\<forall>tol. \<exists>mstr. target_misses_tol tol wght target_matrix target_array
            = Inr (card {j. j < length target_array \<and>
                          (spec_ratio wght target_matrix target_array j < 1 - tol
                           \<or> spec_ratio wght target_matrix target_array j \<ge> 1 + tol)},
                   mstr))
       \<and> (\<forall>tol1 tol2. tol1 \<le> tol2 \<longrightarrow>
            (\<exists>n1 n2 m1 m2.
               target_misses_tol tol1 wght target_matrix target_array = Inr (n1, m1)
               \<and> target_misses_tol tol2 wght target_matrix target_array = Inr (n2, m2)
               \<and> n2 \<le> n1))"
proof -
  note v = target_misses_tol_value [OF assms(1,2), unfolded is_miss_def]
  have a: "\<forall>tol. \<exists>mstr. target_misses_tol tol wght target_matrix target_array
            = Inr (card {j. j < length target_array \<and>
                          (spec_ratio wght target_matrix target_array j < 1 - tol
                           \<or> spec_ratio wght target_matrix target_array j \<ge> 1 + tol)},
                   mstr)"
    using v by blast
  have c: "\<exists>n1 n2 m1 m2.
               target_misses_tol tol1 wght target_matrix target_array = Inr (n1, m1)
               \<and> target_misses_tol tol2 wght target_matrix target_array = Inr (n2, m2)
               \<and> n2 \<le> n1" if "tol1 \<le> tol2" for tol1 tol2
    using v [of tol1] v [of tol2]
      misses_antimono [OF that, of "length target_array" "spec_ratio wght target_matrix target_array",
        unfolded is_miss_def]
    by auto
  from a c show ?thesis unfolding target_misses_def by blast
qed

lemma example_misses:
  "target_misses [1, 2] [[1 / 4, 1 / 8], [1, 0]] [1, 1]
     = Inr (1, [(1, 1 / 2, 1 - 5 / 10000, 1 + 5 / 10000)])"
  by (simp add: target_misses_def target_misses_tol_def TARGET_RATIO_TOLERANCE_def np_dot_def
      dot_def broadcast2_def is_miss_def enumerate_eq_zip Let_def)

theorem target_misses_count_witness:
  "length [1 / 4, 1 / 8 :: real] = length [1, 2 :: real]
   \<and> length [1, 0 :: real] = length [1, 2 :: real]
   \<and> length [[1 / 4, 1 / 8], [1, 0 :: real]] = length [1, 1 :: real]
   \<and> target_misses [1, 2] [[1 / 4, 1 / 8], [1, 0]] [1, 1]
       = Inr (1, [(1, 1 / 2, 1 - 5 / 10000, 1 + 5 / 10000)])
   \<and> card {j. j < length [1, 1 :: real] \<and>
               (spec_ratio [1, 2] [[1 / 4, 1 / 8], [1, 0]] [1, 1] j < 1 - TARGET_RATIO_TOLERANCE
                \<or> spec_ratio [1, 2] [[1 / 4, 1 / 8], [1, 0]] [1, 1] j \<ge> 1 + TARGET_RATIO_TOLERANCE)} = 1
   \<and> (\<exists>n1 n2 m1 m2.
         target_misses_tol 0 [1, 2] [[1 / 4, 1 / 8], [1, 0]] [1, 1] = Inr (n1, m1)
         \<and> target_misses_tol (1 / 2) [1, 2] [[1 / 4, 1 / 8], [1, 0]] [1, 1] = Inr (n2, m2)
         \<and> n2 \<le> n1)"
proof -
  have a: "\<forall>col \<in> set [[1 / 4, 1 / 8], [1, 0 :: real]]. length col = length [1, 2 :: real]" by simp
  have b: "length [[1 / 4, 1 / 8], [1, 0 :: real]] = length [1, 1 :: real]" by simp
  have c: "\<forall>t \<in> set [1, 1 :: real]. t \<noteq> 0" by simp
  note t = target_misses_count [OF a b c]
  from t example_misses
  have n: "card {j. j < length [1, 1 :: real] \<and>
               (spec_ratio [1, 2] [[1 / 4, 1 / 8], [1, 0]] [1, 1] j < 1 - TARGET_RATIO_TOLERANCE
                \<or> spec_ratio [1, 2] [[1 / 4, 1 / 8], [1, 0]] [1, 1] j \<ge> 1 + TARGET_RATIO_TOLERANCE)} = 1"
    by auto
  have "(0::real) \<le> 1 / 2" by simp
  with t have m: "\<exists>n1 n2 m1 m2.
         target_misses_tol 0 [1, 2] [[1 / 4, 1 / 8], [1, 0]] [1, 1] = Inr (n1, m1)
         \<and> target_misses_tol (1 / 2) [1, 2] [[1 / 4, 1 / 8], [1, 0]] [1, 1] = Inr (n2, m2)
         \<and> n2 \<le> n1"
    by blast
  from b example_misses n m show ?thesis by simp
qed

subsection \<open>The yearly weights\<close>

lemma atLeastAtMost_int_first: "a \<le> t \<Longrightarrow> {a..t} = insert a {a + 1..t}" for a t :: int
  by auto

lemma growth_product_step:
  fixes g :: "int \<Rightarrow> real"
  assumes "a \<le> t"
  shows "(\<Prod>k\<in>{a..t}. g k) = g a * (\<Prod>k\<in>{a + 1..t}. g k)"
proof -
  have "a \<notin> {a + 1..t}" by simp
  then show ?thesis
    by (simp add: atLeastAtMost_int_first [OF assms])
qed

lemma growth_loop_upto:
  assumes "\<forall>y. a - 1 \<le> y \<and> y \<le> b \<longrightarrow> pop y = Some (p y)"
    and "\<forall>y. a - 1 \<le> y \<and> y < b \<longrightarrow> p y \<noteq> 0"
  shows "\<exists>wdict. growth_loop pop weights [a..b] c d = Inr wdict
           \<and> (\<forall>t. wdict t =
                 (if a \<le> t \<and> t \<le> b
                  then Some (map (\<lambda>w. w * (c * (\<Prod>k\<in>{a..t}. p k / p (k - 1)))) weights)
                  else d t))"
  using assms
proof (induction "nat (b + 1 - a)" arbitrary: a c d)
  case 0
  then have lt: "b < a" by linarith
  then have "[a..b] = []" by simp
  moreover from lt have "\<not> (a \<le> t \<and> t \<le> b)" for t by linarith
  ultimately show ?case by auto
next
  case (Suc n)
  then have le: "a \<le> b" by linarith
  then have up: "[a..b] = a # [a + 1..b]" by (simp add: upto_rec1)
  have pa: "pop a = Some (p a)" and pb: "pop (a - 1) = Some (p (a - 1))" and nz: "p (a - 1) \<noteq> 0"
    using Suc.prems le by auto
  define cum where "cum = c * (p a / p (a - 1))"
  define d' where "d' = d(a \<mapsto> map (\<lambda>w. w * cum) weights)"
  have n: "n = nat (b + 1 - (a + 1))" using Suc.hyps(2) by linarith
  have h1: "\<forall>y. a + 1 - 1 \<le> y \<and> y \<le> b \<longrightarrow> pop y = Some (p y)"
    and h2: "\<forall>y. a + 1 - 1 \<le> y \<and> y < b \<longrightarrow> p y \<noteq> 0"
    using Suc.prems by auto
  from Suc.hyps(1) [OF n h1 h2, of cum d'] obtain wdict where
    run: "growth_loop pop weights [a + 1..b] cum d' = Inr wdict" and
    val: "\<forall>t. wdict t =
                 (if a + 1 \<le> t \<and> t \<le> b
                  then Some (map (\<lambda>w. w * (cum * (\<Prod>k\<in>{a + 1..t}. p k / p (k - 1)))) weights)
                  else d' t)"
    by blast
  have step: "growth_loop pop weights [a..b] c d = Inr wdict"
    using run pa pb nz by (simp add: up cum_def d'_def Let_def)
  have "wdict t =
          (if a \<le> t \<and> t \<le> b
           then Some (map (\<lambda>w. w * (c * (\<Prod>k\<in>{a..t}. p k / p (k - 1)))) weights)
           else d t)" for t
  proof (cases "a + 1 \<le> t \<and> t \<le> b")
    case True
    then have "a \<le> t" by simp
    from growth_product_step [OF this, of "\<lambda>k. p k / p (k - 1)"] True val
    show ?thesis by (simp add: cum_def mult.assoc)
  next
    case False
    show ?thesis
    proof (cases "t = a")
      case True
      from val False have "wdict t = d' t" by presburger
      also have "\<dots> = Some (map (\<lambda>w. w * cum) weights)" using True by (simp add: d'_def)
      finally show ?thesis using True le by (simp add: cum_def)
    next
      case ne: False
      with False have out: "\<not> (a \<le> t \<and> t \<le> b)" by linarith
      from val False have "wdict t = d' t" by presburger
      also have "\<dots> = d t" using ne by (simp add: d'_def)
      finally show ?thesis using out by presburger
    qed
  qed
  with step show ?case by blast
qed

text \<open>
  The dictionary that the loop over the years builds from a vector of weights.
\<close>

lemma yearly_weights_series:
  assumes "\<forall>y \<in> {FIRST_YEAR..LAST_YEAR}. pop y = Some (p y)"
    and "\<forall>y \<in> {FIRST_YEAR..<LAST_YEAR}. p y \<noteq> 0"
  shows "\<exists>wdict. yearly_weights wght_area pop = Inr wdict
           \<and> wdict FIRST_YEAR = Some (map (\<lambda>w. w * 100) wght_area)
           \<and> (\<forall>t. FIRST_YEAR < t \<and> t \<le> LAST_YEAR \<longrightarrow>
                 wdict t = Some (map (\<lambda>w. w * 100 * (\<Prod>k\<in>{FIRST_YEAR + 1..t}. p k / p (k - 1)))
                                   wght_area))
           \<and> dom wdict = {FIRST_YEAR..LAST_YEAR}"
proof -
  let ?weights = "map (\<lambda>w. w * 100) wght_area"
  have h1: "\<forall>y. FIRST_YEAR + 1 - 1 \<le> y \<and> y \<le> LAST_YEAR \<longrightarrow> pop y = Some (p y)"
    and h2: "\<forall>y. FIRST_YEAR + 1 - 1 \<le> y \<and> y < LAST_YEAR \<longrightarrow> p y \<noteq> 0"
    using assms by auto
  from growth_loop_upto [OF h1 h2, of ?weights 1 "[FIRST_YEAR \<mapsto> ?weights]"]
  obtain wdict where
    run: "growth_loop pop ?weights [FIRST_YEAR + 1..LAST_YEAR] 1 [FIRST_YEAR \<mapsto> ?weights] = Inr wdict"
    and val: "\<forall>t. wdict t =
                 (if FIRST_YEAR + 1 \<le> t \<and> t \<le> LAST_YEAR
                  then Some (map (\<lambda>w. w * (1 * (\<Prod>k\<in>{FIRST_YEAR + 1..t}. p k / p (k - 1)))) ?weights)
                  else [FIRST_YEAR \<mapsto> ?weights] t)"
    by blast
  have r: "yearly_weights wght_area pop = Inr wdict"
    using run by (simp add: yearly_weights_def Let_def)
  have f: "wdict FIRST_YEAR = Some ?weights"
    using val by simp
  have g: "wdict t = Some (map (\<lambda>w. w * 100 * (\<Prod>k\<in>{FIRST_YEAR + 1..t}. p k / p (k - 1))) wght_area)"
    if "FIRST_YEAR < t \<and> t \<le> LAST_YEAR" for t
    using val that by (simp add: comp_def)
  have fl: "FIRST_YEAR \<le> LAST_YEAR" by (simp add: FIRST_YEAR_def LAST_YEAR_def)
  have "wdict t \<noteq> None \<longleftrightarrow> FIRST_YEAR \<le> t \<and> t \<le> LAST_YEAR" for t
    using val fl by (cases "t = FIRST_YEAR") auto
  then have dm: "dom wdict = {FIRST_YEAR..LAST_YEAR}"
    by (auto simp: dom_def)
  from r f g dm show ?thesis by blast
qed

subsection \<open>The regularization loop\<close>

lemma spec_delta_closed: "spec_delta l = (5 - real l) / (4 * 10 ^ 9)"
  by (simp add: spec_delta_def DELTA_INIT_VALUE_def DELTA_MAX_LOOPS_def field_simps)

lemma DELTA_LOOP_DECREMENT_value: "DELTA_LOOP_DECREMENT = 1 / (4 * 10 ^ 9)"
  by (simp add: DELTA_LOOP_DECREMENT_def DELTA_INIT_VALUE_def DELTA_MAX_LOOPS_def)

lemma spec_delta_first: "spec_delta 1 = DELTA_INIT_VALUE"
  by (simp add: spec_delta_def)

lemma spec_delta_nonneg: "l \<le> DELTA_MAX_LOOPS \<Longrightarrow> 0 \<le> spec_delta l"
  by (simp add: spec_delta_closed DELTA_MAX_LOOPS_def)

lemma spec_delta_step:
  assumes "l < DELTA_MAX_LOOPS"
  shows "(if spec_delta l - DELTA_LOOP_DECREMENT < 1 / 10 ^ 20 then 0
          else spec_delta l - DELTA_LOOP_DECREMENT) = spec_delta (l + 1)"
proof -
  have next_delta: "spec_delta l - DELTA_LOOP_DECREMENT = spec_delta (l + 1)"
    by (simp add: spec_delta_closed DELTA_LOOP_DECREMENT_value field_simps)
  show ?thesis
  proof (cases "l = 4")
    case True
    then have "spec_delta (l + 1) = 0" by (simp add: spec_delta_closed)
    with next_delta show ?thesis by simp
  next
    case False
    with assms have "real l \<le> 3" by (simp add: DELTA_MAX_LOOPS_def)
    then have "1 / (4 * 10 ^ 9) \<le> spec_delta (l + 1)"
      by (simp add: spec_delta_closed field_simps)
    moreover have "(1::real) / 10 ^ 20 < 1 / (4 * 10 ^ 9)" by simp
    ultimately have "\<not> spec_delta (l + 1) < 1 / 10 ^ 20" by linarith
    with next_delta show ?thesis by simp
  qed
qed

lemma pass_runs:
  assumes "\<forall>col \<in> set tm. length col = length wght_us" and "length tm = length ta"
    and "length (res_x res) = length wght_us"
  shows "\<exists>wght_area misses minfo.
           broadcast2 (*) (res_x res) wght_us = Inr wght_area
           \<and> target_misses wght_area tm ta = Inr (misses, minfo)"
proof -
  let ?wa = "map2 (*) (res_x res) wght_us"
  have bc: "broadcast2 (*) (res_x res) wght_us = Inr ?wa"
    using assms(3) by (simp add: broadcast2_def)
  have "\<forall>col \<in> set tm. length col = length ?wa" using assms(1,3) by simp
  from target_misses_tol_value [OF this assms(2), of TARGET_RATIO_TOLERANCE] bc
  show ?thesis unfolding target_misses_def by blast
qed

lemma delta_loop_passes:
  assumes sh1: "\<forall>col \<in> set tm. length col = length wght_us" and sh2: "length tm = length ta"
    and sol: "\<forall>d. length (res_x (minimize wght0 (A, b, d))) = length wght_us"
    and l1: "1 \<le> l" and dl: "l \<le> DELTA_MAX_LOOPS \<longrightarrow> delta = spec_delta l"
  shows "\<exists>trials delta_end.
           delta_loop minimize A b wght_us tm ta wght0 l delta = Inr (trials, delta_end)
           \<and> length trials \<le> DELTA_MAX_LOOPS + 1 - l
           \<and> (l \<le> DELTA_MAX_LOOPS \<longrightarrow> trials \<noteq> [])
           \<and> (\<forall>k<length trials.
                 t_loop (trials ! k) = l + k
                 \<and> t_delta (trials ! k) = spec_delta (l + k)
                 \<and> pass_of minimize A b wght_us tm ta wght0 (trials ! k)
                 \<and> (Suc k = length trials \<longleftrightarrow> stops (trials ! k) \<or> l + k = DELTA_MAX_LOOPS))"
  using l1 dl
proof (induction "DELTA_MAX_LOOPS + 1 - l" arbitrary: l delta)
  case 0
  then have nle: "\<not> l \<le> DELTA_MAX_LOOPS" by linarith
  with delta_loop.simps [of minimize A b wght_us tm ta wght0 l delta]
  have "delta_loop minimize A b wght_us tm ta wght0 l delta = Inr ([], delta)"
    by simp
  with nle show ?case by simp
next
  case (Suc n)
  then have le: "l \<le> DELTA_MAX_LOOPS" by linarith
  with Suc.prems have d: "delta = spec_delta l" by simp
  define res where "res = minimize wght0 (A, b, delta)"
  have "length (res_x res) = length wght_us" using sol by (simp add: res_def)
  from pass_runs [OF sh1 sh2 this] obtain wght_area misses minfo where
    bc: "broadcast2 (*) (res_x res) wght_us = Inr wght_area" and
    tm: "target_misses wght_area tm ta = Inr (misses, minfo)"
    by blast
  define tr where "tr = \<lparr>t_loop = l, t_delta = delta, t_x0 = wght0, t_res = res, t_misses = misses\<rparr>"
  have tr_loop: "t_loop tr = l" and tr_delta: "t_delta tr = spec_delta l"
    by (simp_all add: tr_def d)
  have tr_pass: "pass_of minimize A b wght_us tm ta wght0 tr"
    using bc tm by (auto simp: pass_of_def tr_def res_def)
  have tr_stops: "stops tr \<longleftrightarrow> misses = 0 \<or> \<not> res_success res"
    by (simp add: stops_def tr_def)
  define delta2 where
    "delta2 = (if delta - DELTA_LOOP_DECREMENT < 1 / 10 ^ 20 then 0 else delta - DELTA_LOOP_DECREMENT)"
  have unfold: "delta_loop minimize A b wght_us tm ta wght0 l delta =
      (if stops tr then Inr ([tr], delta)
       else case delta_loop minimize A b wght_us tm ta wght0 (l + 1) delta2 of
              Inl e \<Rightarrow> Inl e
            | Inr (later, delta_end) \<Rightarrow> Inr (tr # later, delta_end))"
    unfolding tr_def delta2_def
    by (subst delta_loop.simps)
       (simp only: le if_True Let_def res_def [symmetric] bc tm sum.case prod.case
          stops_def trial.select_convs)
  show ?case
  proof (cases "stops tr")
    case True
    with unfold have "delta_loop minimize A b wght_us tm ta wght0 l delta = Inr ([tr], delta)"
      by simp
    moreover have "length [tr] \<le> DELTA_MAX_LOOPS + 1 - l" using le by simp
    ultimately show ?thesis using True tr_loop tr_delta tr_pass by simp
  next
    case False
    have n: "n = DELTA_MAX_LOOPS + 1 - (l + 1)" using Suc.hyps(2) by linarith
    have l1': "1 \<le> l + 1" by simp
    have d2: "l + 1 \<le> DELTA_MAX_LOOPS \<longrightarrow> delta2 = spec_delta (l + 1)"
    proof
      assume "l + 1 \<le> DELTA_MAX_LOOPS"
      then have "l < DELTA_MAX_LOOPS" by linarith
      from spec_delta_step [OF this] show "delta2 = spec_delta (l + 1)"
        unfolding delta2_def d .
    qed
    from Suc.hyps(1) [OF n l1' d2] obtain later delta_end where
      run: "delta_loop minimize A b wght_us tm ta wght0 (l + 1) delta2 = Inr (later, delta_end)" and
      len: "length later \<le> DELTA_MAX_LOOPS + 1 - (l + 1)" and
      ne: "l + 1 \<le> DELTA_MAX_LOOPS \<longrightarrow> later \<noteq> []" and
      all: "\<forall>k<length later.
                 t_loop (later ! k) = l + 1 + k
                 \<and> t_delta (later ! k) = spec_delta (l + 1 + k)
                 \<and> pass_of minimize A b wght_us tm ta wght0 (later ! k)
                 \<and> (Suc k = length later \<longleftrightarrow> stops (later ! k) \<or> l + 1 + k = DELTA_MAX_LOOPS)"
      by blast
    from unfold False run
    have r: "delta_loop minimize A b wght_us tm ta wght0 l delta = Inr (tr # later, delta_end)"
      by simp
    have len': "length (tr # later) \<le> DELTA_MAX_LOOPS + 1 - l" using len le by simp
    have last0: "later = [] \<longleftrightarrow> l = DELTA_MAX_LOOPS"
    proof
      assume "later = []"
      with ne le show "l = DELTA_MAX_LOOPS" by linarith
    next
      assume "l = DELTA_MAX_LOOPS"
      with len show "later = []" by simp
    qed
    have each: "t_loop ((tr # later) ! k) = l + k
                 \<and> t_delta ((tr # later) ! k) = spec_delta (l + k)
                 \<and> pass_of minimize A b wght_us tm ta wght0 ((tr # later) ! k)
                 \<and> (Suc k = length (tr # later) \<longleftrightarrow> stops ((tr # later) ! k) \<or> l + k = DELTA_MAX_LOOPS)"
      if "k < length (tr # later)" for k
    proof (cases k)
      case 0
      with False last0 tr_loop tr_delta tr_pass show ?thesis by simp
    next
      case (Suc k')
      with that have "k' < length later" by simp
      with all Suc show ?thesis by simp
    qed
    from r len' each show ?thesis by blast
  qed
qed

text \<open>
  C2. For a target matrix with one entry per weight in every column, one target
  per column, and a minimizer that returns one ratio per weight, the loop
  returns after at least one and at most \<open>DELTA_MAX_LOOPS\<close> passes. Pass
  \<open>k + 1\<close> has the delta \<open>DELTA_INIT_VALUE - k * DELTA_INIT_VALUE /
  (DELTA_MAX_LOOPS - 1)\<close>, which is not negative; it calls the minimizer with
  the initial guess of all ones, whatever the pass before returned; and it is
  the last pass exactly when it has no miss, or the minimizer reports no
  success, or it is pass \<open>DELTA_MAX_LOOPS\<close>. So the loop makes fewer than
  \<open>DELTA_MAX_LOOPS\<close> passes exactly when a pass before the last possible one
  has no miss or no success.
\<close>

theorem regularization_loop_trials:
  assumes "\<forall>col \<in> set target_matrix. length col = length wght_us"
    and "length target_matrix = length target_array"
    and "\<forall>args. length (res_x (minimize (replicate (length wght_us) 1) args)) = length wght_us"
  shows "\<exists>trials delta_end.
           regularization_loop minimize wght_us target_matrix target_array = Inr (trials, delta_end)
           \<and> 1 \<le> length trials \<and> length trials \<le> DELTA_MAX_LOOPS
           \<and> (\<forall>k<length trials.
                 t_loop (trials ! k) = k + 1
                 \<and> t_delta (trials ! k) = spec_delta (k + 1)
                 \<and> 0 \<le> t_delta (trials ! k)
                 \<and> t_x0 (trials ! k) = replicate (length wght_us) 1
                 \<and> pass_of minimize (map (\<lambda>col. map2 (*) col wght_us) target_matrix) target_array
                      wght_us target_matrix target_array (replicate (length wght_us) 1) (trials ! k)
                 \<and> (Suc k = length trials \<longleftrightarrow>
                      t_misses (trials ! k) = 0 \<or> \<not> res_success (t_res (trials ! k))
                      \<or> k + 1 = DELTA_MAX_LOOPS))
           \<and> (length trials < DELTA_MAX_LOOPS \<longleftrightarrow>
                (\<exists>k<length trials. k + 1 < DELTA_MAX_LOOPS \<and>
                   (t_misses (trials ! k) = 0 \<or> \<not> res_success (t_res (trials ! k)))))"
proof -
  let ?A = "map (\<lambda>col. map2 (*) col wght_us) target_matrix"
  let ?x0 = "replicate (length wght_us) (1::real)"
  have A: "A_dense target_matrix wght_us = Inr ?A"
    using assms(1) by (simp add: A_dense_def)
  have sol: "\<forall>d. length (res_x (minimize ?x0 (?A, target_array, d))) = length wght_us"
    using assms(3) by simp
  have d1: "1 \<le> DELTA_MAX_LOOPS \<longrightarrow> DELTA_INIT_VALUE = spec_delta 1"
    using spec_delta_first by (intro impI) (rule sym)
  have one: "(1::nat) \<le> 1" by simp
  from delta_loop_passes [of target_matrix wght_us target_array minimize ?x0 ?A target_array 1
      DELTA_INIT_VALUE, OF assms(1,2) sol one d1]
  obtain trials delta_end where
    run: "delta_loop minimize ?A target_array wght_us target_matrix target_array ?x0 1 DELTA_INIT_VALUE
            = Inr (trials, delta_end)" and
    len: "length trials \<le> DELTA_MAX_LOOPS + 1 - 1" and
    ne: "1 \<le> DELTA_MAX_LOOPS \<longrightarrow> trials \<noteq> []" and
    all: "\<forall>k<length trials.
                 t_loop (trials ! k) = 1 + k
                 \<and> t_delta (trials ! k) = spec_delta (1 + k)
                 \<and> pass_of minimize ?A target_array wght_us target_matrix target_array ?x0 (trials ! k)
                 \<and> (Suc k = length trials \<longleftrightarrow> stops (trials ! k) \<or> 1 + k = DELTA_MAX_LOOPS)"
    by blast
  have r: "regularization_loop minimize wght_us target_matrix target_array = Inr (trials, delta_end)"
    using run by (simp add: regularization_loop_def A Let_def)
  have l1: "1 \<le> length trials"
    using ne by (cases trials) (simp_all add: DELTA_MAX_LOOPS_def)
  have l2: "length trials \<le> DELTA_MAX_LOOPS" using len by simp
  have each: "t_loop (trials ! k) = k + 1
                 \<and> t_delta (trials ! k) = spec_delta (k + 1)
                 \<and> 0 \<le> t_delta (trials ! k)
                 \<and> t_x0 (trials ! k) = ?x0
                 \<and> pass_of minimize ?A target_array wght_us target_matrix target_array ?x0 (trials ! k)
                 \<and> (Suc k = length trials \<longleftrightarrow>
                      t_misses (trials ! k) = 0 \<or> \<not> res_success (t_res (trials ! k))
                      \<or> k + 1 = DELTA_MAX_LOOPS)"
    if k: "k < length trials" for k
  proof -
    from all k have a: "t_loop (trials ! k) = 1 + k" "t_delta (trials ! k) = spec_delta (1 + k)"
      "pass_of minimize ?A target_array wght_us target_matrix target_array ?x0 (trials ! k)"
      "Suc k = length trials \<longleftrightarrow> stops (trials ! k) \<or> 1 + k = DELTA_MAX_LOOPS"
      by blast+
    have "k + 1 \<le> DELTA_MAX_LOOPS" using k l2 by linarith
    then have nn: "0 \<le> spec_delta (k + 1)" by (rule spec_delta_nonneg)
    have x0: "t_x0 (trials ! k) = ?x0" using a(3) unfolding pass_of_def by blast
    from a nn x0 show ?thesis by (simp add: stops_def)
  qed
  have early: "length trials < DELTA_MAX_LOOPS \<longleftrightarrow>
                (\<exists>k<length trials. k + 1 < DELTA_MAX_LOOPS \<and>
                   (t_misses (trials ! k) = 0 \<or> \<not> res_success (t_res (trials ! k))))"
  proof
    assume lt: "length trials < DELTA_MAX_LOOPS"
    from l1 obtain k where k: "Suc k = length trials" by (cases "length trials") auto
    then have kl: "k < length trials" by simp
    from each [OF kl] k lt have "t_misses (trials ! k) = 0 \<or> \<not> res_success (t_res (trials ! k))"
      by auto
    moreover from k lt have "k + 1 < DELTA_MAX_LOOPS" by simp
    ultimately show "\<exists>k<length trials. k + 1 < DELTA_MAX_LOOPS \<and>
                   (t_misses (trials ! k) = 0 \<or> \<not> res_success (t_res (trials ! k)))"
      using kl by blast
  next
    assume "\<exists>k<length trials. k + 1 < DELTA_MAX_LOOPS \<and>
                   (t_misses (trials ! k) = 0 \<or> \<not> res_success (t_res (trials ! k)))"
    then obtain k where kl: "k < length trials" and kc: "k + 1 < DELTA_MAX_LOOPS"
      and st: "t_misses (trials ! k) = 0 \<or> \<not> res_success (t_res (trials ! k))"
      by blast
    from each [OF kl] st have "Suc k = length trials" by blast
    with kc show "length trials < DELTA_MAX_LOOPS" by simp
  qed
  from r l1 l2 each early show ?thesis by blast
qed

lemma example_loop:
  "regularization_loop example_minimize [2, 4] [[1 / 4, 1 / 8], [1, 0]] [1, 1]
     = Inr (example_trials, 1 / (2 * 10 ^ 9))"
  by (simp add: regularization_loop_def A_dense_def delta_loop.simps DELTA_MAX_LOOPS_def
      DELTA_INIT_VALUE_def DELTA_LOOP_DECREMENT_def example_minimize_def broadcast2_def
      target_misses_def target_misses_tol_def TARGET_RATIO_TOLERANCE_def np_dot_def dot_def
      is_miss_def enumerate_eq_zip Let_def example_trials_def)

theorem regularization_loop_trials_witness:
  "length [[1 / 4, 1 / 8], [1, 0 :: real]] = length [1, 1 :: real]
   \<and> regularization_loop example_minimize [2, 4] [[1 / 4, 1 / 8], [1, 0]] [1, 1]
       = Inr (example_trials, 1 / (2 * 10 ^ 9))
   \<and> length example_trials = 3 \<and> length example_trials < DELTA_MAX_LOOPS
   \<and> t_delta (example_trials ! 0) = spec_delta (0 + 1)
   \<and> t_delta (example_trials ! 1) = spec_delta (1 + 1)
   \<and> t_delta (example_trials ! 2) = spec_delta (2 + 1)
   \<and> t_x0 (example_trials ! 1) = replicate (length [2, 4 :: real]) 1
   \<and> t_x0 (example_trials ! 2) = replicate (length [2, 4 :: real]) 1
   \<and> (Suc 2 = length example_trials \<longleftrightarrow>
        t_misses (example_trials ! 2) = 0 \<or> \<not> res_success (t_res (example_trials ! 2))
        \<or> 2 + 1 = DELTA_MAX_LOOPS)
   \<and> (\<exists>k<length example_trials. k + 1 < DELTA_MAX_LOOPS \<and>
         (t_misses (example_trials ! k) = 0 \<or> \<not> res_success (t_res (example_trials ! k))))"
proof -
  have a: "\<forall>col \<in> set [[1 / 4, 1 / 8], [1, 0 :: real]]. length col = length [2, 4 :: real]" by simp
  have b: "length [[1 / 4, 1 / 8], [1, 0 :: real]] = length [1, 1 :: real]" by simp
  have c: "\<forall>args. length (res_x (example_minimize (replicate (length [2, 4 :: real]) 1) args))
                = length [2, 4 :: real]"
    by (auto simp: example_minimize_def split: prod.splits)
  have n: "length example_trials = 3" by (simp add: example_trials_def)
  have lt: "length example_trials < DELTA_MAX_LOOPS" by (simp add: n DELTA_MAX_LOOPS_def)
  from regularization_loop_trials
         [of "[[1 / 4, 1 / 8], [1, 0]]" "[2, 4]" "[1, 1]" example_minimize, OF a b c]
       example_loop
  have each: "\<forall>k<length example_trials.
         t_loop (example_trials ! k) = k + 1
         \<and> t_delta (example_trials ! k) = spec_delta (k + 1)
         \<and> t_x0 (example_trials ! k) = replicate (length [2, 4 :: real]) 1
         \<and> (Suc k = length example_trials \<longleftrightarrow>
              t_misses (example_trials ! k) = 0 \<or> \<not> res_success (t_res (example_trials ! k))
              \<or> k + 1 = DELTA_MAX_LOOPS)"
    and early: "length example_trials < DELTA_MAX_LOOPS \<longleftrightarrow>
         (\<exists>k<length example_trials. k + 1 < DELTA_MAX_LOOPS \<and>
            (t_misses (example_trials ! k) = 0 \<or> \<not> res_success (t_res (example_trials ! k))))"
    by auto
  have k0: "0 < length example_trials" and k1: "1 < length example_trials"
    and k2: "2 < length example_trials"
    by (simp_all add: n)
  note i0 = each [rule_format, OF k0] and i1 = each [rule_format, OF k1]
    and i2 = each [rule_format, OF k2]
  from i0 have e0: "t_delta (example_trials ! 0) = spec_delta (0 + 1)" by blast
  from i1 have e1: "t_delta (example_trials ! 1) = spec_delta (1 + 1)"
      "t_x0 (example_trials ! 1) = replicate (length [2, 4 :: real]) 1"
    by blast+
  from i2 have e2: "t_delta (example_trials ! 2) = spec_delta (2 + 1)"
      "t_x0 (example_trials ! 2) = replicate (length [2, 4 :: real]) 1"
      "Suc 2 = length example_trials \<longleftrightarrow>
        t_misses (example_trials ! 2) = 0 \<or> \<not> res_success (t_res (example_trials ! 2))
        \<or> 2 + 1 = DELTA_MAX_LOOPS"
    by blast+
  from lt early have ex: "\<exists>k<length example_trials. k + 1 < DELTA_MAX_LOOPS \<and>
         (t_misses (example_trials ! k) = 0 \<or> \<not> res_success (t_res (example_trials ! k)))"
    by blast
  from b example_loop n lt e0 e1 e2 ex show ?thesis by blast
qed

subsection \<open>The whole run\<close>

text \<open>
  The arrays that \<open>prepared_data\<close> returns have the shapes the loop and
  \<open>target_misses\<close> need, so with a minimizer that returns one ratio per weight
  the run without a weights file always gets through the loop.
\<close>

lemma target_column_length:
  "target_column vardf row scale = Inr c \<Longrightarrow> length c = length (rows vardf)"
proof -
  assume r: "target_column vardf row scale = Inr c"
  from target_column_Inr_codes [OF r] obtain col where
    "codes_ok row" "getcol vardf (varname row) = Inr col" by blast
  from target_column_ok [OF this, of scale] r show ?thesis by simp
qed

lemma prepared_data_shapes:
  assumes "prepared_data vardf tdf = Inr (target_matrix, target_array, iws)"
  shows "\<forall>col \<in> set target_matrix. length col = length (rows vardf)"
    and "length target_matrix = length target_array"
proof -
  note p = prepared_data_Inr [OF assms]
  show "length target_matrix = length target_array" using p(2,4) by simp
  show "\<forall>col \<in> set target_matrix. length col = length (rows vardf)"
  proof
    fix col assume "col \<in> set target_matrix"
    then obtain j where j: "j < length target_matrix" "col = target_matrix ! j"
      by (auto simp: in_set_conv_nth)
    with p(2,3) have "target_column vardf (tdf ! j) (unit_scale (tdf ! j)) = Inr col" by simp
    then show "length col = length (rows vardf)" by (rule target_column_length)
  qed
qed

lemma regularization_loop_runs:
  assumes "\<forall>col \<in> set target_matrix. length col = length wght_us"
    and "length target_matrix = length target_array"
    and "\<forall>args. length (res_x (minimize (replicate (length wght_us) 1) args)) = length wght_us"
  shows "\<exists>trials delta_end.
           regularization_loop minimize wght_us target_matrix target_array = Inr (trials, delta_end)
           \<and> trials \<noteq> [] \<and> length trials \<le> DELTA_MAX_LOOPS
           \<and> broadcast2 (*) (res_x (t_res (last trials))) wght_us
               = Inr (calibrated_weights trials wght_us)"
proof -
  let ?A = "map (\<lambda>col. map2 (*) col wght_us) target_matrix"
  let ?x0 = "replicate (length wght_us) (1::real)"
  have A: "A_dense target_matrix wght_us = Inr ?A"
    using assms(1) by (simp add: A_dense_def)
  have sol: "\<forall>d. length (res_x (minimize ?x0 (?A, target_array, d))) = length wght_us"
    using assms(3) by simp
  have d1: "1 \<le> DELTA_MAX_LOOPS \<longrightarrow> DELTA_INIT_VALUE = spec_delta 1"
    using spec_delta_first by (intro impI) (rule sym)
  have one: "(1::nat) \<le> 1" by simp
  from delta_loop_passes [of target_matrix wght_us target_array minimize ?x0 ?A target_array 1
      DELTA_INIT_VALUE, OF assms(1,2) sol one d1]
  obtain trials delta_end where
    run: "delta_loop minimize ?A target_array wght_us target_matrix target_array ?x0 1 DELTA_INIT_VALUE
            = Inr (trials, delta_end)" and
    len: "length trials \<le> DELTA_MAX_LOOPS + 1 - 1" and
    ne: "1 \<le> DELTA_MAX_LOOPS \<longrightarrow> trials \<noteq> []" and
    all: "\<forall>k<length trials.
            pass_of minimize ?A target_array wght_us target_matrix target_array ?x0 (trials ! k)"
    by blast
  have r: "regularization_loop minimize wght_us target_matrix target_array = Inr (trials, delta_end)"
    using run by (simp add: regularization_loop_def A Let_def)
  have ne': "trials \<noteq> []" using ne by (simp add: DELTA_MAX_LOOPS_def)
  then have "last trials = trials ! (length trials - 1)" by (rule last_conv_nth)
  moreover from ne' have "length trials - 1 < length trials" by simp
  ultimately have "pass_of minimize ?A target_array wght_us target_matrix target_array ?x0 (last trials)"
    using all by simp
  then have "t_res (last trials) = minimize ?x0 (?A, target_array, t_delta (last trials))"
    unfolding pass_of_def by blast
  with sol have "length (res_x (t_res (last trials))) = length wght_us" by simp
  then have "broadcast2 (*) (res_x (t_res (last trials))) wght_us
               = Inr (calibrated_weights trials wght_us)"
    by (simp add: broadcast2_def calibrated_weights_def)
  with r ne' len show ?thesis by auto
qed

lemma create_area_weights_file_runs:
  assumes vdf: "all_taxcalc_variables write_cache infile cache calc_agi = Inr (vdf, cache')"
    and pd: "prepared_data vdf tdf = Inr (target_matrix, target_array, weights_scale)"
    and sol: "\<forall>x0 args. length (res_x (minimize x0 args)) = length x0"
  shows "\<exists>trials. create_area_weights_file minimize False write_cache infile cache calc_agi tdf pop
                     = Inr (trials, None)
           \<and> trials \<noteq> [] \<and> length trials \<le> DELTA_MAX_LOOPS"
proof -
  define wght_us where "wght_us = map (\<lambda>w. w * weights_scale) (map s006 (rows vdf))"
  have lw: "length wght_us = length (rows vdf)" by (simp add: wght_us_def)
  note sh = prepared_data_shapes [OF pd]
  have a: "\<forall>col \<in> set target_matrix. length col = length wght_us" using sh(1) lw by simp
  have c: "\<forall>args. length (res_x (minimize (replicate (length wght_us) 1) args)) = length wght_us"
    using sol by simp
  from regularization_loop_runs [of target_matrix wght_us target_array minimize, OF a sh(2) c]
  obtain trials delta_end where
    r: "regularization_loop minimize wght_us target_matrix target_array = Inr (trials, delta_end)"
    and l: "trials \<noteq> []" "length trials \<le> DELTA_MAX_LOOPS"
    and w: "broadcast2 (*) (res_x (t_res (last trials))) wght_us
              = Inr (calibrated_weights trials wght_us)"
    by blast
  have "create_area_weights_file minimize False write_cache infile cache calc_agi tdf pop
          = Inr (trials, None)"
    unfolding create_area_weights_file_def
    by (simp only: vdf pd sum.case prod.case Let_def wght_us_def [symmetric] r l(1) w
        if_False if_True not_False_eq_True)
  with l show ?thesis by blast
qed

lemma example_table:
  "all_taxcalc_variables False example_vardf (Some [50000, 10000]) (\<lambda>vdf. Inl ValueError)
     = Inr (example_vardf, Some [50000, 10000])"
  by (simp add: all_taxcalc_variables_def agi_column_def set_c00100_def example_vardf_def)

text \<open>
  C7. When the table and the arrays are there, the minimizer returns one ratio per
  weight, and the population forecast has every year from the first to the last
  with no zero before the last, the run with \<open>write_file\<close> set returns the
  passes of its loop and a dictionary of weights with exactly these years. The
  first year's vector is the calibrated area weight vector, the ratios of the
  last pass times the scaled national weights, times 100; the vector of a later
  year \<open>t\<close> is that times 100 times the product of the growth ratios
  \<open>pop k / pop (k - 1)\<close> for \<open>k\<close> from the year after the first to \<open>t\<close>, the same
  factor for every record.
\<close>

theorem create_area_weights_file_yearly_weights:
  assumes vdf: "all_taxcalc_variables write_cache infile cache calc_agi = Inr (vdf, cache')"
    and pd: "prepared_data vdf tdf = Inr (target_matrix, target_array, weights_scale)"
    and sol: "\<forall>args. length (res_x (minimize (replicate (length (rows vdf)) 1) args))
                = length (rows vdf)"
    and pop: "\<forall>y \<in> {FIRST_YEAR..LAST_YEAR}. pop y = Some (p y)"
    and nz: "\<forall>y \<in> {FIRST_YEAR..<LAST_YEAR}. p y \<noteq> 0"
  shows "\<exists>trials delta wdict.
           regularization_loop minimize (scaled_national_weights vdf weights_scale)
               target_matrix target_array = Inr (trials, delta)
           \<and> create_area_weights_file minimize True write_cache infile cache calc_agi tdf pop
               = Inr (trials, Some wdict)
           \<and> wdict FIRST_YEAR
               = Some (map (\<lambda>w. w * 100)
                         (calibrated_weights trials (scaled_national_weights vdf weights_scale)))
           \<and> (\<forall>t. FIRST_YEAR < t \<and> t \<le> LAST_YEAR \<longrightarrow>
                 wdict t
                   = Some (map (\<lambda>w. w * 100 * (\<Prod>k\<in>{FIRST_YEAR + 1..t}. p k / p (k - 1)))
                             (calibrated_weights trials
                                (scaled_national_weights vdf weights_scale))))
           \<and> dom wdict = {FIRST_YEAR..LAST_YEAR}"
proof -
  define wght_us where "wght_us = scaled_national_weights vdf weights_scale"
  have wu: "map (\<lambda>w. w * weights_scale) (map s006 (rows vdf)) = wght_us"
    by (simp add: wght_us_def scaled_national_weights_def)
  have lw: "length wght_us = length (rows vdf)"
    by (simp add: wght_us_def scaled_national_weights_def)
  note sh = prepared_data_shapes [OF pd]
  have a: "\<forall>col \<in> set target_matrix. length col = length wght_us" using sh(1) lw by simp
  have c: "\<forall>args. length (res_x (minimize (replicate (length wght_us) 1) args)) = length wght_us"
    using sol lw by simp
  from regularization_loop_runs [of target_matrix wght_us target_array minimize, OF a sh(2) c]
  obtain trials delta where
    r: "regularization_loop minimize wght_us target_matrix target_array = Inr (trials, delta)"
    and l: "trials \<noteq> []"
    and w: "broadcast2 (*) (res_x (t_res (last trials))) wght_us
              = Inr (calibrated_weights trials wght_us)"
    by blast
  from yearly_weights_series [OF pop nz, of "calibrated_weights trials wght_us"]
  obtain wdict where
    y: "yearly_weights (calibrated_weights trials wght_us) pop = Inr wdict"
    and f: "wdict FIRST_YEAR = Some (map (\<lambda>w. w * 100) (calibrated_weights trials wght_us))"
    and g: "\<forall>t. FIRST_YEAR < t \<and> t \<le> LAST_YEAR \<longrightarrow>
               wdict t = Some (map (\<lambda>w. w * 100 * (\<Prod>k\<in>{FIRST_YEAR + 1..t}. p k / p (k - 1)))
                                 (calibrated_weights trials wght_us))"
    and d: "dom wdict = {FIRST_YEAR..LAST_YEAR}"
    by blast
  have "create_area_weights_file minimize True write_cache infile cache calc_agi tdf pop
          = Inr (trials, Some wdict)"
    unfolding create_area_weights_file_def
    by (simp only: vdf pd sum.case prod.case Let_def wu r l w y
        if_False if_True not_True_eq_False)
  with r f g d show ?thesis unfolding wght_us_def by blast
qed

theorem create_area_weights_file_yearly_weights_witness:
  "all_taxcalc_variables False example_vardf (Some [50000, 10000]) (\<lambda>vdf. Inl ValueError)
     = Inr (example_vardf, Some [50000, 10000])
   \<and> prepared_data example_vardf example_tdf = Inr ([[1 / 4, 1 / 8], [1, 0]], [1, 1], 2)
   \<and> example_pop FIRST_YEAR = Some 100 \<and> example_pop (FIRST_YEAR + 1) = Some 110
   \<and> example_pop LAST_YEAR = Some 121
   \<and> calibrated_weights example_trials (scaled_national_weights example_vardf 2) = [1, 6]
   \<and> (\<exists>wdict.
         create_area_weights_file example_minimize True False example_vardf (Some [50000, 10000])
             (\<lambda>vdf. Inl ValueError) example_tdf example_pop
           = Inr (example_trials, Some wdict)
         \<and> wdict 2021 = Some [100, 600]
         \<and> wdict 2022 = Some [110, 660]
         \<and> wdict 2023 = Some [121, 726])"
proof -
  let ?p = "\<lambda>y::int. if y = 2021 then 100 else if y = 2022 then 110 else 121 :: real"
  have e: "example_pop FIRST_YEAR = Some 100" "example_pop (FIRST_YEAR + 1) = Some 110"
      "example_pop LAST_YEAR = Some 121"
    by (simp_all add: FIRST_YEAR_def LAST_YEAR_def example_pop_def)
  have a: "\<forall>y \<in> {FIRST_YEAR..LAST_YEAR}. example_pop y = Some (?p y)"
    by (auto simp: FIRST_YEAR_def LAST_YEAR_def example_pop_def)
  have b: "\<forall>y \<in> {FIRST_YEAR..<LAST_YEAR}. ?p y \<noteq> 0" by simp
  have sol: "\<forall>args. length (res_x (example_minimize (replicate (length (rows example_vardf)) 1) args))
                = length (rows example_vardf)"
    by (auto simp: example_minimize_def example_vardf_def split: prod.splits)
  have wu: "scaled_national_weights example_vardf 2 = [2, 4]"
    by (simp add: scaled_national_weights_def example_vardf_def)
  have cw: "calibrated_weights example_trials [2, 4] = [1, 6]"
    by (simp add: calibrated_weights_def example_trials_def)
  from create_area_weights_file_yearly_weights
         [where p = "?p" and pop = example_pop and minimize = example_minimize,
          OF example_table example_prepared sol a b, unfolded wu]
       example_loop
  obtain wdict where
    r: "create_area_weights_file example_minimize True False example_vardf (Some [50000, 10000])
             (\<lambda>vdf. Inl ValueError) example_tdf example_pop
           = Inr (example_trials, Some wdict)" and
    f: "wdict FIRST_YEAR = Some (map (\<lambda>w. w * 100) (calibrated_weights example_trials [2, 4]))" and
    g: "\<forall>t. FIRST_YEAR < t \<and> t \<le> LAST_YEAR \<longrightarrow>
            wdict t = Some (map (\<lambda>w. w * 100 * (\<Prod>k\<in>{FIRST_YEAR + 1..t}. ?p k / ?p (k - 1)))
                              (calibrated_weights example_trials [2, 4]))"
    by auto
  have s2: "{FIRST_YEAR + 1..2022} = {2022}" and s3: "{FIRST_YEAR + 1..2023} = {2022, 2023}"
    by (auto simp: FIRST_YEAR_def)
  have w1: "wdict 2021 = Some [100, 600]" using f by (simp add: FIRST_YEAR_def cw)
  have "FIRST_YEAR < 2022 \<and> 2022 \<le> LAST_YEAR" by (simp add: FIRST_YEAR_def LAST_YEAR_def)
  with g have "wdict 2022 = Some (map (\<lambda>w. w * 100 * (\<Prod>k\<in>{FIRST_YEAR + 1..2022}. ?p k / ?p (k - 1)))
                                  (calibrated_weights example_trials [2, 4]))"
    by blast
  then have w2: "wdict 2022 = Some [110, 660]" by (simp add: s2 cw)
  have "FIRST_YEAR < 2023 \<and> 2023 \<le> LAST_YEAR" by (simp add: FIRST_YEAR_def LAST_YEAR_def)
  with g have "wdict 2023 = Some (map (\<lambda>w. w * 100 * (\<Prod>k\<in>{FIRST_YEAR + 1..2023}. ?p k / ?p (k - 1)))
                                  (calibrated_weights example_trials [2, 4]))"
    by blast
  then have w3: "wdict 2023 = Some [121, 726]" by (simp add: s3 cw)
  from example_table example_prepared e wu cw r w1 w2 w3 show ?thesis by auto
qed

end
